theory Spec2Isabelle
  imports Complex_Main
begin

section \<open>Terrain Shape Index tools (tsi\_tools.py)\<close>

text \<open>
  A shallow embedding of the five functions of \<^verbatim>\<open>tsi_tools.py\<close> and of its
  stand-alone entry point. The geoprocessing library is an external collaborator; the
  parts of it the code relies on are modelled as follows.

  \<^item> A feature class (a point file) is its path, its spatial reference and the list of its
    rows in cursor order. All cursors of the code iterate in that order.
  \<^item> A row carries the object identifier \<open>FID\<close>, the point \<open>SHAPE@XY\<close>, the
    integer attribute \<open>Id\<close> and the three DOUBLE attributes \<open>RasElev\<close>,
    \<open>Zhat\<close> and \<open>TSI\<close>. A DOUBLE attribute that was never written is null, which a
    cursor returns as Python's \<open>None\<close>; it is \<open>None\<close> here as well. Adding a field
    that exists already changes nothing, so \<open>AddField_management\<close> is the identity on
    this representation.
  \<^item> DOUBLE values and Python floats are modelled as real numbers: rounding is not
    modelled, and a coordinate reaches the cell query as it is (its formatting as text
    is not modelled).
  \<^item> Creating a feature class, opening a cursor, inserting and updating a row, adding a
    field, projecting and deleting a raster are taken to succeed; the handlers of the
    code are reached by what the loop bodies themselves raise. Field names are matched
    without regard to case (\<open>ZHat\<close> is \<open>Zhat\<close>).
  \<^item> A raster is its path, its spatial reference and the function from a location to the
    cell's value; \<open>None\<close> stands for a location where \<open>GetCellValue_management\<close>
    answers with a text that \<open>float\<close> rejects (\<open>NoData\<close>), which raises
    \<open>ValueError\<close>.
  \<^item> \<open>ProjectRaster_management\<close> is a parameter \<open>project\<close> of the functions that
    call it.
  \<^item> What the code prints, and the geoprocessing calls on rasters, are recorded as a list
    of events.
  \<^item> An exception that no \<open>except\<close> clause of the code catches ends the run; it is the
    \<open>Inl\<close> result of the function that raises it.
  \<^item> The paths given on the command line and \<open>outraster.tif\<close> in the workspace
    directory are taken to be different files.
\<close>

subsection \<open>Data\<close>

record spatial_reference =
  sr_name :: string
  factoryCode :: int

record feature =
  FID :: int
  SHAPE_XY :: "real \<times> real"
  Id_fld :: int
  RasElev :: "real option"
  Zhat :: "real option"
  TSI :: "real option"

record fclass =
  path :: string
  spatialReference :: spatial_reference
  rows :: "feature list"

record raster =
  rpath :: string
  rasterReference :: spatial_reference
  cellValue :: "real \<Rightarrow> real \<Rightarrow> real option"

datatype py_error = TypeError | IndexError | ZeroDivisionError | ValueError

datatype event =
    PrintArc string
  | Traceback py_error
  | ProjectRaster_management string string spatial_reference
  | GetCellValue_management string real real
  | Delete_management string

fun is_projection :: "event \<Rightarrow> bool" where
  "is_projection (ProjectRaster_management src dst sr) = True"
| "is_projection e = False"

text \<open>
  The value of a raster at the point of a row, and the call of the geoprocessing tool
  that asks for it.
\<close>

abbreviation value_at :: "raster \<Rightarrow> feature \<Rightarrow> real option" where
  "value_at elevationRaster row \<equiv>
     cellValue elevationRaster (fst (SHAPE_XY row)) (snd (SHAPE_XY row))"

abbreviation call_at :: "raster \<Rightarrow> feature \<Rightarrow> event" where
  "call_at elevationRaster row \<equiv>
     GetCellValue_management (rpath elevationRaster)
       (fst (SHAPE_XY row)) (snd (SHAPE_XY row))"

subsection \<open>create\_cardinals\<close>

definition radians :: "real \<Rightarrow> real" where
  "radians deg = deg * pi / 180"

text \<open>\<^verbatim>\<open>subOffset = (math.cos(math.radians(45)))*plotRadius\<close>\<close>

definition subOffset :: "real \<Rightarrow> real" where
  "subOffset plotRadius = cos (radians 45) * plotRadius"

text \<open>
  The eight rows \<^verbatim>\<open>[arcpy.Point(..), fid]\<close> that the body of the search loop builds for
  one plot row, in the order in which it inserts them: north, south, east, west,
  north-east, south-east, north-west, south-west.
\<close>

definition cardinal_rows :: "real \<Rightarrow> feature \<Rightarrow> ((real \<times> real) \<times> int) list" where
  "cardinal_rows plotRadius row =
     (let fid = FID row;
          coordX = fst (SHAPE_XY row);
          coordY = snd (SHAPE_XY row);
          so = subOffset plotRadius
      in [((coordX, coordY + plotRadius), fid),
          ((coordX, coordY - plotRadius), fid),
          ((coordX + plotRadius, coordY), fid),
          ((coordX - plotRadius, coordY), fid),
          ((coordX + so, coordY + so), fid),
          ((coordX + so, coordY - so), fid),
          ((coordX - so, coordY + so), fid),
          ((coordX - so, coordY - so), fid)])"

text \<open>
  \<^verbatim>\<open>insertCursor.insertRow([point, fid])\<close> on the fields \<open>SHAPE@XY\<close> and \<open>Id\<close>: the
  new row is appended, the library numbers it with the next object identifier, and the
  output has no other attribute yet.
\<close>

definition insertRow :: "feature list \<Rightarrow> (real \<times> real) \<times> int \<Rightarrow> feature list" where
  "insertRow out r =
     out @ [\<lparr>FID = int (length out), SHAPE_XY = fst r, Id_fld = snd r,
              RasElev = None, Zhat = None, TSI = None\<rparr>]"

text \<open>
  \<^verbatim>\<open>os.path.basename\<close> on the platform of the library: what follows the last slash
  or backslash (a bare drive prefix is not modelled).
\<close>

definition basename :: "string \<Rightarrow> string" where
  "basename p = rev (takeWhile (\<lambda>c. c \<noteq> CHR ''/'' \<and> c \<noteq> CHR 0x5C) (rev p))"

text \<open>
  \<open>create_cardinals\<close> creates the output feature class in the spatial reference of the
  point file (replacing a file of that name: \<open>overwriteOutput\<close> is set), reads every
  row of the point file and inserts its eight rows. It returns the output, which is a new
  file; the point file is only read.
\<close>

definition create_cardinals :: "fclass \<Rightarrow> real \<Rightarrow> string \<Rightarrow> fclass \<times> event list" where
  "create_cardinals pointFile plotRadius outputPath =
     (\<lparr>path = outputPath,
       spatialReference = spatialReference pointFile,
       rows = foldl (\<lambda>out row. foldl insertRow out (cardinal_rows plotRadius row))
                [] (rows pointFile)\<rparr>,
      [PrintArc (basename outputPath @ '' created'')])"

subsection \<open>extract\_elevation\<close>

text \<open>
  The update loop of \<open>extract_elevation\<close>. The \<open>try\<close> statement encloses the whole
  \<open>for\<close> loop, so the first row whose value cannot be read ends the loop: that row and
  the rows after it are left as they are, and the handler prints its message and the
  traceback. The result is the rows as the loop leaves them and the events of the loop.
\<close>

fun extract_loop :: "raster \<Rightarrow> feature list \<Rightarrow> feature list \<times> event list" where
  "extract_loop elevationRaster [] = ([], [])"
| "extract_loop elevationRaster (row # rest) =
     (case cellValue elevationRaster (fst (SHAPE_XY row)) (snd (SHAPE_XY row)) of
        None \<Rightarrow>
          (row # rest,
           [GetCellValue_management (rpath elevationRaster)
              (fst (SHAPE_XY row)) (snd (SHAPE_XY row)),
            PrintArc ''An error occurred:'', Traceback ValueError])
      | Some rasterValue \<Rightarrow>
          (row\<lparr>RasElev := Some rasterValue\<rparr> # fst (extract_loop elevationRaster rest),
           GetCellValue_management (rpath elevationRaster)
              (fst (SHAPE_XY row)) (snd (SHAPE_XY row))
             # snd (extract_loop elevationRaster rest)))"

definition extract_elevation :: "fclass \<Rightarrow> raster \<Rightarrow> fclass \<times> event list" where
  "extract_elevation pointFile elevationRaster =
     (pointFile\<lparr>rows := fst (extract_loop elevationRaster (rows pointFile))\<rparr>,
      snd (extract_loop elevationRaster (rows pointFile))
        @ [PrintArc (''Elevation values from '' @ rpath elevationRaster
                       @ '' added to '' @ path pointFile)])"

subsection \<open>raster\_extract\<close>

text \<open>
  The third argument is the file \<open>outraster.tif\<close> of the workspace directory as the
  call finds it (\<open>None\<close>: no such file); the second component of the result is that
  file as the call leaves it. \<open>project\<close> stands for \<open>ProjectRaster_management\<close>: the
  surface it computes from a raster and a target spatial reference.
\<close>

definition raster_extract ::
  "(raster \<Rightarrow> spatial_reference \<Rightarrow> raster) \<Rightarrow> fclass \<Rightarrow> raster \<Rightarrow> raster option
     \<Rightarrow> fclass \<times> raster option \<times> event list" where
  "raster_extract project pointFile elevationRaster outfile =
     (if sr_name (spatialReference pointFile) = sr_name (rasterReference elevationRaster)
      then (fst (extract_elevation pointFile elevationRaster), outfile,
            snd (extract_elevation pointFile elevationRaster))
      else
        (let outRaster = (project elevationRaster (spatialReference pointFile))
                           \<lparr>rpath := ''outraster.tif''\<rparr>
         in (fst (extract_elevation pointFile outRaster), None,
             ProjectRaster_management (rpath elevationRaster) ''outraster.tif''
                 (spatialReference pointFile)
               # snd (extract_elevation pointFile outRaster)
               @ [Delete_management ''outraster.tif''])))"

subsection \<open>calculate\_zhat\<close>

text \<open>
  Python's \<open>xs[i]\<close>: an index below zero counts from the end, an index out of range
  raises \<open>IndexError\<close>.
\<close>

definition py_index :: "'a list \<Rightarrow> int \<Rightarrow> py_error + 'a" where
  "py_index xs i =
     (if 0 \<le> i \<and> i < int (length xs) then Inr (xs ! nat i)
      else if i < 0 \<and> - int (length xs) \<le> i then Inr (xs ! nat (int (length xs) + i))
      else Inl IndexError)"

text \<open>
  \<^verbatim>\<open>[row[1]-pointElevs[i] for row in <the selected cardinal rows>]\<close>. The subtraction
  raises \<open>TypeError\<close> when either elevation is \<open>None\<close>.
\<close>

fun cardElevs :: "real option list \<Rightarrow> int \<Rightarrow> feature list \<Rightarrow> py_error + real list" where
  "cardElevs pointElevs i [] = Inr []"
| "cardElevs pointElevs i (row # rest) =
     (case py_index pointElevs i of
        Inl e \<Rightarrow> Inl e
      | Inr None \<Rightarrow> Inl TypeError
      | Inr (Some p) \<Rightarrow>
          (case RasElev row of
             None \<Rightarrow> Inl TypeError
           | Some c \<Rightarrow>
               (case cardElevs pointElevs i rest of
                  Inl e \<Rightarrow> Inl e
                | Inr ds \<Rightarrow> Inr ((c - p) # ds))))"

text \<open>\<^verbatim>\<open>zhat = sum(cardElevs)/len(cardElevs)\<close>\<close>

definition mean :: "real list \<Rightarrow> py_error + real" where
  "mean ds = (if ds = [] then Inl ZeroDivisionError
              else Inr (sum_list ds / real (length ds)))"

text \<open>
  The first two statements of the loop body: the deviations of the cardinal rows that
  the where clause \<open>Id = i\<close> selects, and their mean.
\<close>

definition zhat_of :: "real option list \<Rightarrow> feature list \<Rightarrow> int \<Rightarrow> py_error + real" where
  "zhat_of pointElevs cards i =
     (case cardElevs pointElevs i (filter (\<lambda>row. Id_fld row = i) cards) of
        Inl e \<Rightarrow> Inl e
      | Inr ds \<Rightarrow> mean ds)"

text \<open>The update cursor with the where clause \<open>FID = i\<close>.\<close>

definition set_zhat :: "int \<Rightarrow> real \<Rightarrow> feature list \<Rightarrow> feature list" where
  "set_zhat i zhat plots =
     map (\<lambda>row. if FID row = i then row\<lparr>Zhat := Some zhat\<rparr> else row) plots"

text \<open>
  The loop over \<open>unique_ofids\<close>. The list comprehension and the mean stand outside the
  \<open>try\<close> statement of the loop body: what they raise ends the run.
\<close>

fun zhat_loop ::
  "real option list \<Rightarrow> feature list \<Rightarrow> int list \<Rightarrow> feature list \<Rightarrow> py_error + feature list" where
  "zhat_loop pointElevs cards [] plots = Inr plots"
| "zhat_loop pointElevs cards (i # ids) plots =
     (case zhat_of pointElevs cards i of
        Inl e \<Rightarrow> Inl e
      | Inr zhat \<Rightarrow> zhat_loop pointElevs cards ids (set_zhat i zhat plots))"

text \<open>
  What the completed loop over \<open>ids\<close> has made of one plot row; the lemmas on
  \<open>zhat_loop\<close> are stated with it.
\<close>

definition zhat_row :: "real option list \<Rightarrow> feature list \<Rightarrow> int list \<Rightarrow> feature \<Rightarrow> feature" where
  "zhat_row pointElevs cards ids row =
     (if FID row \<in> set ids
      then (case zhat_of pointElevs cards (FID row) of
              Inl e \<Rightarrow> row
            | Inr zhat \<Rightarrow> row\<lparr>Zhat := Some zhat\<rparr>)
      else row)"

text \<open>
  \<open>list(set(ofids))\<close> holds every owner identifier once, in an order that Python
  leaves open; \<open>remdups\<close> fixes one. The rows that a completed loop leaves do not
  depend on it (\<open>zhat_loop_order\<close> below).
\<close>

definition calculate_zhat :: "fclass \<Rightarrow> fclass \<Rightarrow> py_error + fclass \<times> event list" where
  "calculate_zhat pointFile cardinalFile =
     (let ofids = map Id_fld (rows cardinalFile);
          unique_ofids = remdups ofids;
          pointElevs = map RasElev (rows pointFile)
      in case zhat_loop pointElevs (rows cardinalFile) unique_ofids (rows pointFile) of
           Inl e \<Rightarrow> Inl e
         | Inr plots \<Rightarrow>
             Inr (pointFile\<lparr>rows := plots\<rparr>,
                  [PrintArc (''Z-Hat values for '' @ path pointFile @ '' calculated'')]))"

subsection \<open>calculate\_tsi\<close>

text \<open>
  The update loop of \<open>calculate_tsi\<close>, enclosed as a whole by the \<open>try\<close> statement:
  \<open>row[0]/float(plotRadius)\<close> raises \<open>TypeError\<close> on a \<open>Zhat\<close> that is \<open>None\<close>
  and \<open>ZeroDivisionError\<close> on a radius of zero, and either ends the loop.
\<close>

fun tsi_loop :: "real \<Rightarrow> feature list \<Rightarrow> feature list \<times> event list" where
  "tsi_loop plotRadius [] = ([], [])"
| "tsi_loop plotRadius (row # rest) =
     (case Zhat row of
        None \<Rightarrow> (row # rest, [PrintArc ''An error occurred:'', Traceback TypeError])
      | Some z \<Rightarrow>
          (if plotRadius = 0
           then (row # rest, [PrintArc ''An error occurred:'', Traceback ZeroDivisionError])
           else (row\<lparr>TSI := Some (z / plotRadius)\<rparr> # fst (tsi_loop plotRadius rest),
                 snd (tsi_loop plotRadius rest))))"

definition calculate_tsi :: "fclass \<Rightarrow> real \<Rightarrow> fclass \<times> event list" where
  "calculate_tsi pointFile plotRadius =
     (pointFile\<lparr>rows := fst (tsi_loop plotRadius (rows pointFile))\<rparr>,
      snd (tsi_loop plotRadius (rows pointFile))
        @ [PrintArc (''TSI values for '' @ path pointFile @ '' calculated'')])"

subsection \<open>The stand-alone run\<close>

text \<open>
  The files the run reads and writes: the plot points, the cardinal points (\<open>None\<close>
  before a run has created them) and \<open>outraster.tif\<close>.
\<close>

record workspace =
  inputPlots :: fclass
  outputCardinals :: "fclass option"
  outraster :: "raster option"

definition main ::
  "(raster \<Rightarrow> spatial_reference \<Rightarrow> raster) \<Rightarrow> real \<Rightarrow> raster \<Rightarrow> string \<Rightarrow> workspace
     \<Rightarrow> py_error + workspace \<times> event list" where
  "main project inputRadius inputRaster outputPath ws =
     (let created = create_cardinals (inputPlots ws) inputRadius outputPath;
          sampledPlots = raster_extract project (inputPlots ws) inputRaster (outraster ws);
          sampledCards = raster_extract project (fst created) inputRaster
                           (fst (snd sampledPlots))
      in case calculate_zhat (fst sampledPlots) (fst sampledCards) of
           Inl e \<Rightarrow> Inl e
         | Inr averaged \<Rightarrow>
             (let indexed = calculate_tsi (fst averaged) inputRadius
              in Inr (\<lparr>inputPlots = fst indexed,
                        outputCardinals = Some (fst sampledCards),
                        outraster = fst (snd sampledCards)\<rparr>,
                      snd created @ snd (snd sampledPlots) @ snd (snd sampledCards)
                        @ snd averaged @ snd indexed)))"

subsection \<open>Example inputs\<close>

text \<open>Two plots in a projected reference, as a shapefile numbers them.\<close>

definition utm17 :: spatial_reference where
  "utm17 = \<lparr>sr_name = ''NAD_1983_UTM_Zone_17N'', factoryCode = 26917\<rparr>"

definition plot_at :: "int \<Rightarrow> real \<Rightarrow> real \<Rightarrow> feature" where
  "plot_at i x y = \<lparr>FID = i, SHAPE_XY = (x, y), Id_fld = 0,
                     RasElev = None, Zhat = None, TSI = None\<rparr>"

definition two_plots :: fclass where
  "two_plots = \<lparr>path = ''plots.shp'', spatialReference = utm17,
                 rows = [plot_at 0 100 200, plot_at 1 300 400]\<rparr>"

text \<open>A surface with no value where \<open>x = 300\<close> and the value 7 elsewhere.\<close>

definition gap_raster :: raster where
  "gap_raster = \<lparr>rpath = ''dem.tif'', rasterReference = utm17,
                  cellValue = (\<lambda>x y. if x = 300 then None else Some 7)\<rparr>"

text \<open>Three plots: the second has no z-hat, the others have.\<close>

definition three_plots :: fclass where
  "three_plots = \<lparr>path = ''plots.shp'', spatialReference = utm17,
                  rows = [(plot_at 0 100 200)\<lparr>Zhat := Some 6\<rparr>,
                          plot_at 1 300 400,
                          (plot_at 2 500 600)\<lparr>Zhat := Some 3\<rparr>]\<rparr>"

text \<open>
  A surface everywhere 7 in a reference that has the name of \<open>utm17\<close> and is not
  \<open>utm17\<close>, and the same surface in a geographic reference.
\<close>

definition custom_raster :: raster where
  "custom_raster = \<lparr>rpath = ''dem.tif'',
                     rasterReference = \<lparr>sr_name = ''NAD_1983_UTM_Zone_17N'', factoryCode = 0\<rparr>,
                     cellValue = (\<lambda>x y. Some 7)\<rparr>"

definition wgs_raster :: raster where
  "wgs_raster = \<lparr>rpath = ''dem.tif'',
                  rasterReference = \<lparr>sr_name = ''GCS_WGS_1984'', factoryCode = 4326\<rparr>,
                  cellValue = (\<lambda>x y. Some 7)\<rparr>"

text \<open>A stand-in for the projection tool: it relabels the surface.\<close>

definition relabel :: "raster \<Rightarrow> spatial_reference \<Rightarrow> raster" where
  "relabel r sr = r\<lparr>rasterReference := sr\<rparr>"

text \<open>
  One plot of elevation 50 and two cardinal rows of it, of which the second has no
  elevation.
\<close>

definition one_plot :: fclass where
  "one_plot = \<lparr>path = ''plots.shp'', spatialReference = utm17,
                rows = [(plot_at 0 100 200)\<lparr>RasElev := Some 50\<rparr>]\<rparr>"

definition card_at :: "int \<Rightarrow> int \<Rightarrow> real option \<Rightarrow> feature" where
  "card_at n i e = \<lparr>FID = n, SHAPE_XY = (0, 0), Id_fld = i,
                     RasElev = e, Zhat = None, TSI = None\<rparr>"

definition partial_cards :: fclass where
  "partial_cards = \<lparr>path = ''cards.shp'', spatialReference = utm17,
                     rows = [card_at 0 0 (Some 55), card_at 1 0 None]\<rparr>"

text \<open>
  A layer with a selection: the one plot it yields has the identifier 3 and the
  elevation 50, and its two cardinal rows have the elevations 55 and 45.
\<close>

definition selected_plot :: fclass where
  "selected_plot = \<lparr>path = ''plots_layer'', spatialReference = utm17,
                     rows = [(plot_at 3 100 200)\<lparr>RasElev := Some 50\<rparr>]\<rparr>"

definition selected_cards :: fclass where
  "selected_cards = \<lparr>path = ''cards.shp'', spatialReference = utm17,
                      rows = [card_at 0 3 (Some 55), card_at 1 3 (Some 45)]\<rparr>"

text \<open>
  The scenario of the design document, and a second plot with two cardinal rows: plot 0
  has the elevation 50 and eight cardinal elevations of mean deviation 0, plot 1 has
  the elevation 10 and the cardinal elevations 12 and 14.
\<close>

definition sampled_plots :: fclass where
  "sampled_plots = \<lparr>path = ''plots.shp'', spatialReference = utm17,
                     rows = [(plot_at 0 100 200)\<lparr>RasElev := Some 50\<rparr>,
                             (plot_at 1 300 400)\<lparr>RasElev := Some 10\<rparr>]\<rparr>"

definition sampled_cards :: fclass where
  "sampled_cards = \<lparr>path = ''cards.shp'', spatialReference = utm17,
                     rows = [card_at 0 0 (Some 55), card_at 1 0 (Some 45),
                             card_at 2 0 (Some 60), card_at 3 0 (Some 40),
                             card_at 4 0 (Some 52), card_at 5 0 (Some 48),
                             card_at 6 0 (Some 58), card_at 7 0 (Some 42),
                             card_at 8 1 (Some 12), card_at 9 1 (Some 14)]\<rparr>"

text \<open>
  Three sampled plots, of which the second owns no cardinal row: plot 0 has the
  elevation 50 and the cardinal elevations 56 and 46, plot 2 has the elevation 10 and
  the cardinal elevations 12 and 14.
\<close>

definition elev_plots :: fclass where
  "elev_plots = \<lparr>path = ''plots.shp'', spatialReference = utm17,
                  rows = [(plot_at 0 100 200)\<lparr>RasElev := Some 50\<rparr>,
                          (plot_at 1 300 400)\<lparr>RasElev := Some 20\<rparr>,
                          (plot_at 2 500 600)\<lparr>RasElev := Some 10\<rparr>]\<rparr>"

definition outer_cards :: fclass where
  "outer_cards = \<lparr>path = ''cards.shp'', spatialReference = utm17,
                   rows = [card_at 0 0 (Some 56), card_at 1 0 (Some 46),
                           card_at 2 2 (Some 12), card_at 3 2 (Some 14)]\<rparr>"

text \<open>
  A surface that has the value 50 at the centres of \<open>two_plots\<close> and no value anywhere
  else.
\<close>

definition centres_raster :: raster where
  "centres_raster = \<lparr>rpath = ''dem.tif'', rasterReference = utm17,
     cellValue = (\<lambda>x y. if (x = 100 \<and> y = 200) \<or> (x = 300 \<and> y = 400)
                          then Some 50 else None)\<rparr>"

text \<open>
  A run on \<open>two_plots\<close> and a surface everywhere 7: the files before it, the files
  after it, and what it prints and calls.
\<close>

definition flat_raster :: raster where
  "flat_raster = \<lparr>rpath = ''dem.tif'', rasterReference = utm17,
                   cellValue = (\<lambda>x y. Some 7)\<rparr>"

definition first_state :: workspace where
  "first_state = \<lparr>inputPlots = two_plots, outputCardinals = None, outraster = None\<rparr>"

definition second_state :: workspace where
  "second_state =
     \<lparr>inputPlots = two_plots\<lparr>rows :=
         [(plot_at 0 100 200)\<lparr>RasElev := Some 7, Zhat := Some 0, TSI := Some 0\<rparr>,
          (plot_at 1 300 400)\<lparr>RasElev := Some 7, Zhat := Some 0, TSI := Some 0\<rparr>]\<rparr>,
      outputCardinals =
        Some (fst (extract_elevation (fst (create_cardinals two_plots 15 ''cards.shp''))
                     flat_raster)),
      outraster = None\<rparr>"

definition run_report :: "event list" where
  "run_report =
     snd (create_cardinals two_plots 15 ''cards.shp'')
     @ snd (extract_elevation two_plots flat_raster)
     @ snd (extract_elevation (fst (create_cardinals two_plots 15 ''cards.shp'')) flat_raster)
     @ [PrintArc ''Z-Hat values for plots.shp calculated'',
        PrintArc ''TSI values for plots.shp calculated'']"

section \<open>The offset geometry\<close>

lemma cos_radians_45: "cos (radians 45) = sqrt 2 / 2"
proof -
  have "radians 45 = pi / 4" by (simp add: radians_def)
  then show ?thesis by (simp only: cos_45)
qed

lemma subOffset_sqrt: "subOffset r = r * sqrt 2 / 2"
  by (simp add: subOffset_def cos_radians_45)

lemma insertRow_XY: "map SHAPE_XY (foldl insertRow out xs) = map SHAPE_XY out @ map fst xs"
  by (induction xs arbitrary: out) (simp_all add: insertRow_def)

lemma create_loop_XY:
  "map SHAPE_XY (foldl (\<lambda>out row. foldl insertRow out (cardinal_rows r row)) out ps) =
     map SHAPE_XY out @ concat (map (\<lambda>row. map fst (cardinal_rows r row)) ps)"
  by (induction ps arbitrary: out) (simp_all add: insertRow_XY)

text \<open>
  C2. For every centre \<open>(x, y)\<close> and every radius, the loop body of
  \<open>create_cardinals\<close> produces exactly eight coordinates, in the fixed order
  N \<open>(x, y + r)\<close>, S \<open>(x, y - r)\<close>, E \<open>(x + r, y)\<close>, W \<open>(x - r, y)\<close>,
  NE \<open>(x + d, y + d)\<close>, SE \<open>(x + d, y - d)\<close>, NW \<open>(x - d, y + d)\<close>,
  SW \<open>(x - d, y - d)\<close>, where \<open>d = r * cos 45\<degree> = r * sqrt 2 / 2\<close>. The generator is a
  function of the centre and the radius only: the plot row, and with it the centre, is
  read and never written, and the point file is not among the results of
  \<open>create_cardinals\<close>. The points of the file that \<open>create_cardinals\<close> makes are
  these eight per plot row, in the order of the plot rows.
\<close>

theorem cardinal_rows_geometry:
  "map fst (cardinal_rows r \<lparr>FID = i, SHAPE_XY = (x, y), Id_fld = j,
                              RasElev = e, Zhat = z, TSI = t\<rparr>) =
     [(x, y + r), (x, y - r), (x + r, y), (x - r, y),
      (x + r * sqrt 2 / 2, y + r * sqrt 2 / 2), (x + r * sqrt 2 / 2, y - r * sqrt 2 / 2),
      (x - r * sqrt 2 / 2, y + r * sqrt 2 / 2), (x - r * sqrt 2 / 2, y - r * sqrt 2 / 2)]
   \<and> length (cardinal_rows r \<lparr>FID = i, SHAPE_XY = (x, y), Id_fld = j,
                                RasElev = e, Zhat = z, TSI = t\<rparr>) = 8
   \<and> r * sqrt 2 / 2 = r * cos (radians 45)
   \<and> map SHAPE_XY (rows (fst (create_cardinals pf r outp))) =
       concat (map (\<lambda>row. map fst (cardinal_rows r row)) (rows pf))"
proof (intro conjI)
  show "map SHAPE_XY (rows (fst (create_cardinals pf r outp))) =
       concat (map (\<lambda>row. map fst (cardinal_rows r row)) (rows pf))"
    by (simp add: create_cardinals_def create_loop_XY)
qed (simp_all add: cardinal_rows_def Let_def subOffset_sqrt cos_radians_45)

section \<open>Cardinal generation\<close>

lemma insertRow_Id: "map Id_fld (foldl insertRow out xs) = map Id_fld out @ map snd xs"
  by (induction xs arbitrary: out) (simp_all add: insertRow_def)

lemma length_concat_replicate:
  "length (concat (map (\<lambda>p. replicate 8 (FID p)) ps)) = 8 * length ps"
  by (induction ps) simp_all

lemma map_snd_cardinal_rows: "map snd (cardinal_rows r row) = replicate 8 (FID row)"
  by (simp add: cardinal_rows_def Let_def numeral_eq_Suc)

lemma create_loop_Id:
  "map Id_fld (foldl (\<lambda>out row. foldl insertRow out (cardinal_rows r row)) out ps) =
     map Id_fld out @ concat (map (\<lambda>p. replicate 8 (FID p)) ps)"
  by (induction ps arbitrary: out) (simp_all add: insertRow_Id map_snd_cardinal_rows)

lemma create_cardinals_Id:
  "map Id_fld (rows (fst (create_cardinals pf r outp))) =
     concat (map (\<lambda>p. replicate 8 (FID p)) (rows pf))"
  by (simp add: create_cardinals_def create_loop_Id)

lemma filter_concat_replicate:
  "length (filter (\<lambda>j. j = i) (concat (map (\<lambda>p. replicate 8 (FID p)) ps))) =
     8 * length (filter (\<lambda>p. FID p = i) ps)"
  by (induction ps) simp_all

lemma length_filter_map: "length (filter (\<lambda>c. f c = i) cs) = length (filter (\<lambda>j. j = i) (map f cs))"
  by (induction cs) simp_all

lemma distinct_count_one:
  "distinct (map f ps) \<Longrightarrow> p \<in> set ps \<Longrightarrow> length (filter (\<lambda>q. f q = f p) ps) = 1"
proof (induction ps)
  case Nil then show ?case by simp
next
  case (Cons a ps)
  show ?case
  proof (cases "f a = f p")
    case True
    then have "\<forall>q\<in>set ps. f q \<noteq> f p" using Cons.prems(1) by (auto simp: image_iff)
    then have "filter (\<lambda>q. f q = f p) ps = []" by (simp add: filter_empty_conv)
    then show ?thesis using True by simp
  next
    case False
    then have "p \<in> set ps" using Cons.prems(2) by auto
    then show ?thesis using Cons False by simp
  qed
qed

text \<open>
  C7. For every plot row of the point file, \<open>create_cardinals\<close> creates eight cardinal
  rows, each with that plot's \<open>FID\<close> in its \<open>Id\<close> attribute: the owner identifiers
  of the output are those of the plots, eight times each and in the order of the plots.
  So the output has eight rows per plot, every cardinal's owner identifier is the
  identifier of a plot of the point file, and, identifiers being unique, each plot owns
  exactly eight cardinal rows.
\<close>

theorem create_cardinals_eight_per_plot:
  "map Id_fld (rows (fst (create_cardinals pf r outp))) =
     concat (map (\<lambda>p. replicate 8 (FID p)) (rows pf))
   \<and> length (rows (fst (create_cardinals pf r outp))) = 8 * length (rows pf)
   \<and> (\<forall>c \<in> set (rows (fst (create_cardinals pf r outp))).
         \<exists>p \<in> set (rows pf). FID p = Id_fld c)
   \<and> (distinct (map FID (rows pf)) \<longrightarrow>
        (\<forall>p \<in> set (rows pf).
           length (filter (\<lambda>c. Id_fld c = FID p) (rows (fst (create_cardinals pf r outp)))) = 8))"
proof -
  let ?cs = "rows (fst (create_cardinals pf r outp))"
  have ids: "map Id_fld ?cs = concat (map (\<lambda>p. replicate 8 (FID p)) (rows pf))"
    by (rule create_cardinals_Id)
  have "length (map Id_fld ?cs) = 8 * length (rows pf)"
    unfolding ids by (rule length_concat_replicate)
  then have len: "length ?cs = 8 * length (rows pf)" by simp
  have own: "\<forall>c \<in> set ?cs. \<exists>p \<in> set (rows pf). FID p = Id_fld c"
  proof
    fix c assume "c \<in> set ?cs"
    then have "Id_fld c \<in> set (map Id_fld ?cs)" by simp
    then show "\<exists>p \<in> set (rows pf). FID p = Id_fld c"
      unfolding ids by auto
  qed
  have cnt: "length (filter (\<lambda>c. Id_fld c = i) ?cs) = 8 * length (filter (\<lambda>p. FID p = i) (rows pf))" for i
    using length_filter_map [of Id_fld i ?cs] filter_concat_replicate [of i "rows pf"]
    by (simp only: ids)
  have eight: "distinct (map FID (rows pf)) \<longrightarrow>
        (\<forall>p \<in> set (rows pf). length (filter (\<lambda>c. Id_fld c = FID p) ?cs) = 8)"
    using cnt distinct_count_one [of FID "rows pf"] by simp
  show ?thesis using ids len own eight by blast
qed


theorem create_cardinals_eight_per_plot_witness:
  "distinct (map FID (rows two_plots))
   \<and> map Id_fld (rows (fst (create_cardinals two_plots 15 ''cards.shp''))) =
       [0, 0, 0, 0, 0, 0, 0, 0, 1, 1, 1, 1, 1, 1, 1, 1]
   \<and> length (filter (\<lambda>c. Id_fld c = 1)
               (rows (fst (create_cardinals two_plots 15 ''cards.shp'')))) = 8"
proof -
  note t = create_cardinals_eight_per_plot [of two_plots 15 "''cards.shp''"]
  have d: "distinct (map FID (rows two_plots))"
    by (simp add: two_plots_def plot_at_def)
  have p: "plot_at 1 300 400 \<in> set (rows two_plots)"
    by (simp add: two_plots_def)
  have "map Id_fld (rows (fst (create_cardinals two_plots 15 ''cards.shp''))) =
          replicate 8 0 @ replicate 8 1"
    using t by (simp add: two_plots_def plot_at_def)
  also have "\<dots> = [0, 0, 0, 0, 0, 0, 0, 0, 1, 1, 1, 1, 1, 1, 1, 1]"
    by (simp add: numeral_eq_Suc)
  finally have ids: "map Id_fld (rows (fst (create_cardinals two_plots 15 ''cards.shp''))) =
          [0, 0, 0, 0, 0, 0, 0, 0, 1, 1, 1, 1, 1, 1, 1, 1]" .
  have "length (filter (\<lambda>c. Id_fld c = FID (plot_at 1 300 400))
               (rows (fst (create_cardinals two_plots 15 ''cards.shp'')))) = 8"
    using t d p by blast
  then have cnt: "length (filter (\<lambda>c. Id_fld c = 1)
               (rows (fst (create_cardinals two_plots 15 ''cards.shp'')))) = 8"
    by (simp add: plot_at_def)
  show ?thesis using d ids cnt by simp
qed

section \<open>Elevation sampling\<close>

lemma extract_loop_stops:
  assumes "\<forall>p\<in>set pre. value_at r p \<noteq> None" and "value_at r row = None"
  shows "extract_loop r (pre @ row # post) =
           (map (\<lambda>p. p\<lparr>RasElev := value_at r p\<rparr>) pre @ row # post,
            map (call_at r) (pre @ [row]) @ [PrintArc ''An error occurred:'', Traceback ValueError])"
  using assms by (induction pre) auto

lemma extract_loop_all:
  assumes "\<forall>p\<in>set ps. value_at r p \<noteq> None"
  shows "extract_loop r ps = (map (\<lambda>p. p\<lparr>RasElev := value_at r p\<rparr>) ps, map (call_at r) ps)"
  using assms by (induction ps) auto

lemma extract_loop_no_projection: "\<forall>e\<in>set (snd (extract_loop r ps)). \<not> is_projection e"
  by (induction ps) (auto split: option.splits)

lemma extract_elevation_no_projection:
  "filter is_projection (snd (extract_elevation pf r)) = []"
  using extract_loop_no_projection [of r "rows pf"]
  by (simp add: extract_elevation_def filter_empty_conv)

lemma extract_loop_frame:
  "map (\<lambda>p. p\<lparr>RasElev := None\<rparr>) (fst (extract_loop r ps)) = map (\<lambda>p. p\<lparr>RasElev := None\<rparr>) ps"
  by (induction ps) (auto split: option.splits)

lemma extract_elevation_frame:
  "path (fst (extract_elevation pf r)) = path pf
   \<and> spatialReference (fst (extract_elevation pf r)) = spatialReference pf
   \<and> map (\<lambda>p. p\<lparr>RasElev := None\<rparr>) (rows (fst (extract_elevation pf r))) =
       map (\<lambda>p. p\<lparr>RasElev := None\<rparr>) (rows pf)"
  by (simp add: extract_elevation_def extract_loop_frame)

text \<open>
  C3, as the code has it. A sampling failure at one point is caught and logged (the
  message and the traceback are printed), and that point's elevation stays as it was.
  The handler stands outside the loop, so the failure ends the loop: the points before
  the failing one have their sampled elevation, every point after it keeps the
  elevation it had and is not sampled (no call of the tool is made for it), and
  \<open>extract_elevation\<close> prints its closing message and returns.
\<close>

theorem extract_elevation_stops_at_failure:
  assumes "rows pf = pre @ row # post"
    and "\<forall>p\<in>set pre. value_at r p \<noteq> None"
    and "value_at r row = None"
  shows "extract_elevation pf r =
           (pf\<lparr>rows := map (\<lambda>p. p\<lparr>RasElev := value_at r p\<rparr>) pre @ row # post\<rparr>,
            map (call_at r) (pre @ [row])
              @ [PrintArc ''An error occurred:'', Traceback ValueError,
                 PrintArc (''Elevation values from '' @ rpath r @ '' added to '' @ path pf)])"
  using assms by (simp add: extract_elevation_def extract_loop_stops)

text \<open>
  An instance: the second of three points has no value on the surface. The first point
  is sampled, the second and the third are not.
\<close>

theorem extract_elevation_stops_at_failure_witness:
  "extract_elevation three_plots gap_raster =
     (three_plots\<lparr>rows := [(plot_at 0 100 200)\<lparr>RasElev := Some 7, Zhat := Some 6\<rparr>,
                            plot_at 1 300 400,
                            (plot_at 2 500 600)\<lparr>Zhat := Some 3\<rparr>]\<rparr>,
      [GetCellValue_management ''dem.tif'' 100 200,
       GetCellValue_management ''dem.tif'' 300 400,
       PrintArc ''An error occurred:'', Traceback ValueError,
       PrintArc ''Elevation values from dem.tif added to plots.shp''])"
  using extract_elevation_stops_at_failure
    [of three_plots "[(plot_at 0 100 200)\<lparr>Zhat := Some 6\<rparr>]" "plot_at 1 300 400"
        "[(plot_at 2 500 600)\<lparr>Zhat := Some 3\<rparr>]" gap_raster]
  by (simp add: three_plots_def gap_raster_def plot_at_def)

text \<open>
  C3 as stated fails there: the surface has the value 7 at the third point, which comes
  after the failing one, and the elevation of the third point is still unset after
  \<open>extract_elevation\<close>.
\<close>

theorem extract_elevation_cex:
  "value_at gap_raster (rows three_plots ! 2) = Some 7
   \<and> map RasElev (rows (fst (extract_elevation three_plots gap_raster))) =
       [Some 7, None, None]"
  by (simp add: extract_elevation_def three_plots_def gap_raster_def plot_at_def)

section \<open>Reprojection\<close>

text \<open>
  The two branches of \<open>raster_extract\<close>. Where the names of the two spatial references
  differ, the surface (not the points: their reference and coordinates are unchanged)
  is projected into the reference of the points, once and before the first cell is
  read, every cell is read from the projected surface \<open>outraster.tif\<close>, and that file
  is deleted after the batch, so that no \<open>outraster.tif\<close> is left. Where the names
  are equal the sampling reads the surface it was given, nothing is projected and
  \<open>outraster.tif\<close> is left as it was.
\<close>

lemma raster_extract_branches:
  "(sr_name (spatialReference pf) \<noteq> sr_name (rasterReference r) \<longrightarrow>
      raster_extract project pf r outfile =
        (fst (extract_elevation pf ((project r (spatialReference pf))\<lparr>rpath := ''outraster.tif''\<rparr>)),
         None,
         ProjectRaster_management (rpath r) ''outraster.tif'' (spatialReference pf)
           # snd (extract_elevation pf ((project r (spatialReference pf))\<lparr>rpath := ''outraster.tif''\<rparr>))
           @ [Delete_management ''outraster.tif''])
      \<and> length (filter is_projection (snd (snd (raster_extract project pf r outfile)))) = 1
      \<and> spatialReference (fst (raster_extract project pf r outfile)) = spatialReference pf
      \<and> map SHAPE_XY (rows (fst (raster_extract project pf r outfile))) = map SHAPE_XY (rows pf))
   \<and> (sr_name (spatialReference pf) = sr_name (rasterReference r) \<longrightarrow>
      raster_extract project pf r outfile =
        (fst (extract_elevation pf r), outfile, snd (extract_elevation pf r))
      \<and> filter is_projection (snd (snd (raster_extract project pf r outfile))) = [])"
proof -
  have xy: "map SHAPE_XY (rows (fst (extract_elevation pf s))) = map SHAPE_XY (rows pf)" for s
  proof -
    have "map SHAPE_XY (map (\<lambda>p. p\<lparr>RasElev := None\<rparr>) (rows (fst (extract_elevation pf s)))) =
          map SHAPE_XY (map (\<lambda>p. p\<lparr>RasElev := None\<rparr>) (rows pf))"
      using extract_elevation_frame [of pf s] by simp
    then show ?thesis by (simp add: comp_def)
  qed
  show ?thesis
    by (simp add: raster_extract_def Let_def extract_elevation_no_projection
        extract_elevation_frame xy)
qed

text \<open>
  Instances: a surface in a geographic reference is projected for plots in a UTM
  reference; a surface in the plots' own reference is read as it is.
\<close>

lemma raster_extract_branches_instances:
  "raster_extract relabel two_plots wgs_raster (Some gap_raster) =
     (two_plots\<lparr>rows := [(plot_at 0 100 200)\<lparr>RasElev := Some 7\<rparr>,
                          (plot_at 1 300 400)\<lparr>RasElev := Some 7\<rparr>]\<rparr>,
      None,
      [ProjectRaster_management ''dem.tif'' ''outraster.tif'' utm17,
       GetCellValue_management ''outraster.tif'' 100 200,
       GetCellValue_management ''outraster.tif'' 300 400,
       PrintArc ''Elevation values from outraster.tif added to plots.shp'',
       Delete_management ''outraster.tif''])
   \<and> raster_extract relabel two_plots gap_raster (Some wgs_raster) =
     (two_plots\<lparr>rows := [(plot_at 0 100 200)\<lparr>RasElev := Some 7\<rparr>, plot_at 1 300 400]\<rparr>,
      Some wgs_raster,
      [GetCellValue_management ''dem.tif'' 100 200,
       GetCellValue_management ''dem.tif'' 300 400,
       PrintArc ''An error occurred:'', Traceback ValueError,
       PrintArc ''Elevation values from dem.tif added to plots.shp''])"
  using raster_extract_branches [of two_plots wgs_raster relabel "Some gap_raster"]
    raster_extract_branches [of two_plots gap_raster relabel "Some wgs_raster"]
  by (simp add: two_plots_def wgs_raster_def gap_raster_def utm17_def plot_at_def relabel_def
      extract_elevation_def)

text \<open>
  C6. When the spatial reference of the point collection differs from that of the
  elevation surface, the surface is to be projected once into the reference of the
  points before any sampling, and the projected surface discarded after the batch; the
  docstring of \<open>raster_extract\<close> says the same (the raster is projected if the two do
  not have the same spatial reference). The code does not do so for two references
  that differ and have one name. Here the reference of the plots and the reference of
  the surface differ in their code and share their name: \<open>raster_extract\<close> projects
  nothing, every cell is read from the surface as it was given (\<open>dem.tif\<close>, not
  \<open>outraster.tif\<close>), and both plots get the value 7 of that surface.
\<close>

theorem raster_extract_same_name_unprojected:
  "spatialReference two_plots \<noteq> rasterReference custom_raster
   \<and> raster_extract relabel two_plots custom_raster None =
       (two_plots\<lparr>rows := [(plot_at 0 100 200)\<lparr>RasElev := Some 7\<rparr>,
                            (plot_at 1 300 400)\<lparr>RasElev := Some 7\<rparr>]\<rparr>,
        None,
        [GetCellValue_management ''dem.tif'' 100 200,
         GetCellValue_management ''dem.tif'' 300 400,
         PrintArc ''Elevation values from dem.tif added to plots.shp''])
   \<and> filter is_projection
         (snd (snd (raster_extract relabel two_plots custom_raster None))) = []"
  by (simp add: raster_extract_def extract_elevation_def two_plots_def custom_raster_def
      utm17_def plot_at_def)

text \<open>
  C9. Whether the surface is projected is decided by the names of the two spatial
  references alone: a projection takes place exactly when the names differ, and for
  references that differ and share their name the sampling reads the original surface.
\<close>

theorem raster_extract_name_test:
  "((\<exists>e \<in> set (snd (snd (raster_extract project pf r outfile))). is_projection e) \<longleftrightarrow>
      sr_name (spatialReference pf) \<noteq> sr_name (rasterReference r))
   \<and> (spatialReference pf \<noteq> rasterReference r
        \<and> sr_name (spatialReference pf) = sr_name (rasterReference r) \<longrightarrow>
      raster_extract project pf r outfile =
        (fst (extract_elevation pf r), outfile, snd (extract_elevation pf r)))"
proof -
  have no: "\<not> (\<exists>e \<in> set (snd (extract_elevation pf s)). is_projection e)" for s
    using extract_elevation_no_projection [of pf s] by (simp add: filter_empty_conv)
  show ?thesis
    using no by (auto simp add: raster_extract_def Let_def)
qed

theorem raster_extract_name_test_witness:
  "sr_name (spatialReference two_plots) = sr_name (rasterReference custom_raster)
   \<and> spatialReference two_plots \<noteq> rasterReference custom_raster
   \<and> raster_extract relabel two_plots custom_raster None =
       (fst (extract_elevation two_plots custom_raster), None,
        snd (extract_elevation two_plots custom_raster))
   \<and> \<not> (\<exists>e \<in> set (snd (snd (raster_extract relabel two_plots custom_raster None))).
           is_projection e)
   \<and> (\<exists>e \<in> set (snd (snd (raster_extract relabel two_plots wgs_raster None))).
           is_projection e)"
  using raster_extract_name_test [of relabel two_plots custom_raster None]
    raster_extract_name_test [of relabel two_plots wgs_raster None]
  by (simp add: two_plots_def custom_raster_def wgs_raster_def utm17_def)

section \<open>The index\<close>

lemma tsi_loop_stops:
  assumes "r \<noteq> 0" and "\<forall>p\<in>set pre. Zhat p \<noteq> None" and "Zhat row = None"
  shows "tsi_loop r (pre @ row # post) =
           (map (\<lambda>p. p\<lparr>TSI := Some (the (Zhat p) / r)\<rparr>) pre @ row # post,
            [PrintArc ''An error occurred:'', Traceback TypeError])"
  using assms by (induction pre) auto

lemma tsi_loop_all:
  assumes "r \<noteq> 0" and "\<forall>p\<in>set ps. Zhat p \<noteq> None"
  shows "tsi_loop r ps = (map (\<lambda>p. p\<lparr>TSI := Some (the (Zhat p) / r)\<rparr>) ps, [])"
  using assms by (induction ps) auto

text \<open>
  C5, as the code has it, for a radius other than zero. When every plot has a z-hat,
  \<open>calculate_tsi\<close> sets the TSI of every plot to z-hat / radius and reports nothing.
  Otherwise the first plot without a z-hat ends the loop: the plots before it have
  TSI = z-hat / radius, that plot and every plot after it (with a z-hat or without)
  keep the TSI they had, and the condition is reported (message and traceback), not
  raised: \<open>calculate_tsi\<close> prints its closing message and returns.
\<close>

theorem calculate_tsi_prefix:
  assumes "plotRadius \<noteq> 0"
  shows "((\<forall>p\<in>set (rows pf). Zhat p \<noteq> None) \<longrightarrow>
            calculate_tsi pf plotRadius =
              (pf\<lparr>rows := map (\<lambda>p. p\<lparr>TSI := Some (the (Zhat p) / plotRadius)\<rparr>) (rows pf)\<rparr>,
               [PrintArc (''TSI values for '' @ path pf @ '' calculated'')]))
       \<and> (rows pf = pre @ row # post \<and> (\<forall>p\<in>set pre. Zhat p \<noteq> None) \<and> Zhat row = None \<longrightarrow>
            calculate_tsi pf plotRadius =
              (pf\<lparr>rows := map (\<lambda>p. p\<lparr>TSI := Some (the (Zhat p) / plotRadius)\<rparr>) pre
                              @ row # post\<rparr>,
               [PrintArc ''An error occurred:'', Traceback TypeError,
                PrintArc (''TSI values for '' @ path pf @ '' calculated'')]))"
  using assms by (simp add: calculate_tsi_def tsi_loop_all tsi_loop_stops)

theorem calculate_tsi_prefix_witness:
  "calculate_tsi three_plots 2 =
     (three_plots\<lparr>rows := [(plot_at 0 100 200)\<lparr>Zhat := Some 6, TSI := Some 3\<rparr>,
                            plot_at 1 300 400,
                            (plot_at 2 500 600)\<lparr>Zhat := Some 3\<rparr>]\<rparr>,
      [PrintArc ''An error occurred:'', Traceback TypeError,
       PrintArc ''TSI values for plots.shp calculated''])
   \<and> calculate_tsi (three_plots\<lparr>rows := [(plot_at 0 100 200)\<lparr>Zhat := Some 6\<rparr>]\<rparr>) 2 =
     (three_plots\<lparr>rows := [(plot_at 0 100 200)\<lparr>Zhat := Some 6, TSI := Some 3\<rparr>]\<rparr>,
      [PrintArc ''TSI values for plots.shp calculated''])"
  using calculate_tsi_prefix
    [of 2 three_plots "[(plot_at 0 100 200)\<lparr>Zhat := Some 6\<rparr>]" "plot_at 1 300 400"
        "[(plot_at 2 500 600)\<lparr>Zhat := Some 3\<rparr>]"]
    calculate_tsi_prefix
    [of 2 "three_plots\<lparr>rows := [(plot_at 0 100 200)\<lparr>Zhat := Some 6\<rparr>]\<rparr>"]
  by (simp add: three_plots_def plot_at_def)

text \<open>
  C5 as stated fails for a plot with a z-hat that follows a plot without one: the third
  plot has the z-hat 3 and, with the radius 2, no TSI.
\<close>

theorem calculate_tsi_cex:
  "map Zhat (rows three_plots) = [Some 6, None, Some 3]
   \<and> map TSI (rows (fst (calculate_tsi three_plots 2))) = [Some 3, None, None]"
  by (simp add: calculate_tsi_def three_plots_def plot_at_def)

section \<open>The mean deviation\<close>

lemma cardElevs_ok:
  assumes "py_index pe i = Inr (Some p)" and "\<forall>c\<in>set cs. RasElev c \<noteq> None"
  shows "cardElevs pe i cs = Inr (map (\<lambda>c. the (RasElev c) - p) cs)"
  using assms by (induction cs) auto

lemma FID_zhat_row: "FID (zhat_row pe cards ids row) = FID row"
  by (simp add: zhat_row_def split: sum.splits)

lemma zhat_row_Nil: "zhat_row pe cards [] row = row"
  by (simp add: zhat_row_def)

lemma zhat_row_Cons:
  assumes "zhat_of pe cards i = Inr z"
  shows "zhat_row pe cards ids (if FID row = i then row\<lparr>Zhat := Some z\<rparr> else row) =
         zhat_row pe cards (i # ids) row"
  using assms by (auto simp add: zhat_row_def split: sum.splits)

lemma zhat_loop_ok:
  assumes "\<forall>i\<in>set ids. \<exists>z. zhat_of pe cards i = Inr z"
  shows "zhat_loop pe cards ids plots = Inr (map (zhat_row pe cards ids) plots)"
  using assms
proof (induction ids arbitrary: plots)
  case Nil
  show ?case by (simp add: zhat_row_Nil)
next
  case (Cons i ids)
  from Cons.prems obtain z where z: "zhat_of pe cards i = Inr z" by auto
  have "zhat_loop pe cards (i # ids) plots = zhat_loop pe cards ids (set_zhat i z plots)"
    by (simp add: z)
  also have "\<dots> = Inr (map (zhat_row pe cards ids) (set_zhat i z plots))"
    using Cons.IH Cons.prems by simp
  also have "map (zhat_row pe cards ids) (set_zhat i z plots) = map (zhat_row pe cards (i # ids)) plots"
    by (simp add: set_zhat_def zhat_row_Cons [OF z])
  finally show ?case .
qed

lemma zhat_loop_Inr:
  assumes "zhat_loop pe cards ids plots = Inr plots'"
  shows "\<forall>i\<in>set ids. \<exists>z. zhat_of pe cards i = Inr z"
  using assms
proof (induction ids arbitrary: plots)
  case Nil
  show ?case by simp
next
  case (Cons i ids)
  then show ?case by (auto split: sum.splits)
qed

lemma zhat_loop_result:
  assumes "zhat_loop pe cards ids plots = Inr plots'"
  shows "plots' = map (zhat_row pe cards ids) plots"
  using zhat_loop_ok [OF zhat_loop_Inr [OF assms], of plots] assms by simp

text \<open>
  The order in which the loop takes the identifiers, and how often, decides at most
  which of several errors ends the run: where the loop completes for one list of
  identifiers it completes, with the same rows, for every list of the same identifiers.
\<close>

lemma zhat_loop_order:
  assumes "set ids' = set ids" and "zhat_loop pe cards ids plots = Inr plots'"
  shows "zhat_loop pe cards ids' plots = Inr plots'"
proof -
  have "\<forall>i\<in>set ids'. \<exists>z. zhat_of pe cards i = Inr z"
    using zhat_loop_Inr [OF assms(2)] assms(1) by simp
  then have "zhat_loop pe cards ids' plots = Inr (map (zhat_row pe cards ids') plots)"
    by (rule zhat_loop_ok)
  moreover have "zhat_row pe cards ids' = zhat_row pe cards ids"
    using assms(1) by (simp add: zhat_row_def fun_eq_iff)
  ultimately show ?thesis using zhat_loop_result [OF assms(2)] by simp
qed

lemma zhat_row_frame: "(zhat_row pe cards ids row)\<lparr>Zhat := None\<rparr> = row\<lparr>Zhat := None\<rparr>"
  by (simp add: zhat_row_def split: sum.splits)

lemma zhat_of_mean:
  assumes "py_index pe i = Inr (Some p)"
    and "\<forall>c\<in>set cards. RasElev c \<noteq> None"
    and "i \<in> Id_fld ` set cards"
  shows "zhat_of pe cards i =
           Inr (sum_list (map (\<lambda>c. the (RasElev c) - p) (filter (\<lambda>c. Id_fld c = i) cards))
                / real (length (filter (\<lambda>c. Id_fld c = i) cards)))"
proof -
  have "cardElevs pe i (filter (\<lambda>c. Id_fld c = i) cards) =
          Inr (map (\<lambda>c. the (RasElev c) - p) (filter (\<lambda>c. Id_fld c = i) cards))"
    using assms(1,2) by (intro cardElevs_ok) auto
  moreover have "filter (\<lambda>c. Id_fld c = i) cards \<noteq> []"
    using assms(3) by (auto simp add: filter_empty_conv)
  ultimately show ?thesis by (simp add: zhat_of_def mean_def)
qed

lemma calculate_zhat_rows:
  assumes "calculate_zhat pf cf = Inr (pf', ev)"
  shows "pf' = pf\<lparr>rows := map (zhat_row (map RasElev (rows pf)) (rows cf)
                               (remdups (map Id_fld (rows cf)))) (rows pf)\<rparr>"
    and "ev = [PrintArc (''Z-Hat values for '' @ path pf @ '' calculated'')]"
  using assms zhat_loop_result
  by (auto simp add: calculate_zhat_def Let_def split: sum.splits)

lemma calculate_zhat_ok_ids:
  assumes "calculate_zhat pf cf = Inr (pf', ev)"
  shows "\<forall>i\<in>set (remdups (map Id_fld (rows cf))).
           \<exists>z. zhat_of (map RasElev (rows pf)) (rows cf) i = Inr z"
proof -
  from assms obtain plots where
    "zhat_loop (map RasElev (rows pf)) (rows cf) (remdups (map Id_fld (rows cf))) (rows pf) = Inr plots"
    by (auto simp add: calculate_zhat_def Let_def split: sum.splits)
  then show ?thesis by (rule zhat_loop_Inr)
qed

text \<open>
  C1, as the code has it. Let every cardinal row have an elevation, let every owner
  identifier be the position of a plot whose elevation is set, and let the plot
  identifiers be the positions of the plots in the point file (as the object
  identifiers of a shapefile are). Then \<open>calculate_zhat\<close> completes, and for every plot
  that owns a cardinal row it sets z-hat to the arithmetic mean of (cardinal elevation
  - that plot's own elevation) over the cardinal rows that carry the plot's identifier;
  the denominator is the number of these rows, whatever it is, not 8. A plot that owns
  no cardinal row keeps its z-hat.
\<close>

theorem calculate_zhat_mean:
  assumes aligned: "map FID (rows pf) = map int [0..<length (rows pf)]"
    and owners: "\<forall>c\<in>set (rows cf). 0 \<le> Id_fld c \<and> Id_fld c < int (length (rows pf))"
    and cvalid: "\<forall>c\<in>set (rows cf). RasElev c \<noteq> None"
    and pvalid: "\<forall>c\<in>set (rows cf). RasElev (rows pf ! nat (Id_fld c)) \<noteq> None"
  shows "calculate_zhat pf cf =
    Inr (pf\<lparr>rows :=
           map (\<lambda>p. if FID p \<in> Id_fld ` set (rows cf)
                    then p\<lparr>Zhat := Some
                           (sum_list (map (\<lambda>c. the (RasElev c) - the (RasElev p))
                                        (filter (\<lambda>c. Id_fld c = FID p) (rows cf)))
                            / real (length (filter (\<lambda>c. Id_fld c = FID p) (rows cf))))\<rparr>
                    else p)
             (rows pf)\<rparr>,
         [PrintArc (''Z-Hat values for '' @ path pf @ '' calculated'')])"
proof -
  let ?pe = "map RasElev (rows pf)"
  let ?ids = "remdups (map Id_fld (rows cf))"
  let ?m = "\<lambda>i p. sum_list (map (\<lambda>c. the (RasElev c) - p) (filter (\<lambda>c. Id_fld c = i) (rows cf)))
                / real (length (filter (\<lambda>c. Id_fld c = i) (rows cf)))"
  have idx: "py_index ?pe i = Inr (Some (the (RasElev (rows pf ! nat i))))"
    if "i \<in> Id_fld ` set (rows cf)" for i
  proof -
    from that obtain c where c: "c \<in> set (rows cf)" "Id_fld c = i" by auto
    have r: "0 \<le> i" "i < int (length (rows pf))" using owners c by auto
    have "RasElev (rows pf ! nat i) \<noteq> None" using pvalid c by auto
    then show ?thesis using r by (auto simp add: py_index_def)
  qed
  have zo: "zhat_of ?pe (rows cf) i = Inr (?m i (the (RasElev (rows pf ! nat i))))"
    if "i \<in> Id_fld ` set (rows cf)" for i
    using zhat_of_mean [OF idx [OF that] cvalid that] .
  have ok: "\<forall>i\<in>set ?ids. \<exists>z. zhat_of ?pe (rows cf) i = Inr z"
    using zo by auto
  have pos: "rows pf ! nat (FID p) = p" if "p \<in> set (rows pf)" for p
  proof -
    from that obtain k where k: "k < length (rows pf)" "rows pf ! k = p"
      by (auto simp add: in_set_conv_nth)
    have "map FID (rows pf) ! k = map int [0..<length (rows pf)] ! k"
      using aligned by simp
    then have "FID p = int k" using k by simp
    then show ?thesis using k by simp
  qed
  have row: "zhat_row ?pe (rows cf) ?ids p =
        (if FID p \<in> Id_fld ` set (rows cf)
         then p\<lparr>Zhat := Some (?m (FID p) (the (RasElev p)))\<rparr> else p)"
    if "p \<in> set (rows pf)" for p
    using zo [of "FID p"] pos [OF that] by (simp add: zhat_row_def)
  have "zhat_loop ?pe (rows cf) ?ids (rows pf) = Inr (map (zhat_row ?pe (rows cf) ?ids) (rows pf))"
    using ok by (rule zhat_loop_ok)
  also have "map (zhat_row ?pe (rows cf) ?ids) (rows pf) =
      map (\<lambda>p. if FID p \<in> Id_fld ` set (rows cf)
         then p\<lparr>Zhat := Some (?m (FID p) (the (RasElev p)))\<rparr> else p) (rows pf)"
    using row by (intro map_cong) auto
  finally show ?thesis
    by (simp add: calculate_zhat_def Let_def)
qed

text \<open>
  The scenario of the design document: deviations 5, -5, 10, -10, 2, -2, 8, -8 and the
  z-hat 0; and a plot with two cardinal rows only, of deviations 2 and 4 and z-hat 3.
\<close>

theorem calculate_zhat_mean_witness:
  "calculate_zhat sampled_plots sampled_cards =
     Inr (sampled_plots\<lparr>rows := [(plot_at 0 100 200)\<lparr>RasElev := Some 50, Zhat := Some 0\<rparr>,
                                 (plot_at 1 300 400)\<lparr>RasElev := Some 10, Zhat := Some 3\<rparr>]\<rparr>,
          [PrintArc ''Z-Hat values for plots.shp calculated''])"
proof -
  have a: "map FID (rows sampled_plots) = map int [0..<length (rows sampled_plots)]"
    by (simp add: sampled_plots_def plot_at_def upt_rec)
  have b: "\<forall>c\<in>set (rows sampled_cards). 0 \<le> Id_fld c \<and> Id_fld c < int (length (rows sampled_plots))"
    by (simp add: sampled_plots_def sampled_cards_def card_at_def)
  have c: "\<forall>c\<in>set (rows sampled_cards). RasElev c \<noteq> None"
    by (simp add: sampled_cards_def card_at_def)
  have d: "\<forall>c\<in>set (rows sampled_cards). RasElev (rows sampled_plots ! nat (Id_fld c)) \<noteq> None"
    by (simp add: sampled_plots_def sampled_cards_def card_at_def plot_at_def)
  show ?thesis
    using calculate_zhat_mean [OF a b c d]
    by (simp add: sampled_plots_def sampled_cards_def card_at_def plot_at_def)
qed

text \<open>
  C1 as stated fails for a plot of which one cardinal row has an elevation and another
  has none: the claim gives it the z-hat 5, the mean over the one valid row; the code
  does not leave the invalid row out, its subtraction raises \<open>TypeError\<close>, and no
  \<open>except\<close> clause encloses it. It fails as well where the identifier of a plot is not
  its position: the plot's own elevation is read at the position that the identifier
  names, here beyond the end of the list, and the claim gives the plot the z-hat 0.
\<close>

theorem calculate_zhat_cex:
  "calculate_zhat one_plot partial_cards = Inl TypeError
   \<and> calculate_zhat selected_plot selected_cards = Inl IndexError"
  by (simp add: calculate_zhat_def one_plot_def partial_cards_def selected_plot_def
      selected_cards_def plot_at_def card_at_def zhat_of_def py_index_def)

section \<open>Plots without cardinal rows\<close>

lemma tsi_loop_length: "length (fst (tsi_loop r ps)) = length ps"
  by (induction ps) (auto split: option.splits)

lemma tsi_loop_frame:
  "map (\<lambda>p. p\<lparr>TSI := None\<rparr>) (fst (tsi_loop r ps)) = map (\<lambda>p. p\<lparr>TSI := None\<rparr>) ps"
  by (induction ps) (auto split: option.splits)

lemma tsi_loop_keeps:
  assumes "j < length ps" and "\<exists>m\<le>j. Zhat (ps ! m) = None"
  shows "fst (tsi_loop r ps) ! j = ps ! j"
  using assms
proof (induction ps arbitrary: j)
  case Nil
  then show ?case by simp
next
  case (Cons row rest)
  show ?case
  proof (cases "Zhat row = None \<or> r = 0")
    case True
    then show ?thesis by (auto split: option.splits)
  next
    case False
    then obtain z where z: "Zhat row = Some z" and r: "r \<noteq> 0" by auto
    from Cons.prems obtain m where m: "m \<le> j" "Zhat ((row # rest) ! m) = None" by auto
    from m z obtain m' where m': "m = Suc m'" by (cases m) auto
    with m obtain j' where j': "j = Suc j'" by (cases j) auto
    have "fst (tsi_loop r rest) ! j' = rest ! j'"
      using Cons.IH [of j'] Cons.prems(1) m m' j' by auto
    then show ?thesis using z r j' by simp
  qed
qed

lemma tsi_loop_sets:
  assumes "j < length ps" and "\<forall>m\<le>j. Zhat (ps ! m) \<noteq> None" and "r \<noteq> 0"
  shows "fst (tsi_loop r ps) ! j = (ps ! j)\<lparr>TSI := Some (the (Zhat (ps ! j)) / r)\<rparr>"
  using assms
proof (induction ps arbitrary: j)
  case Nil
  then show ?case by simp
next
  case (Cons row rest)
  from Cons.prems(2) have "Zhat ((row # rest) ! 0) \<noteq> None" by blast
  then obtain z where z: "Zhat row = Some z" by auto
  show ?case
  proof (cases j)
    case 0
    then show ?thesis using z Cons.prems(3) by simp
  next
    case (Suc j')
    have "\<forall>m\<le>j'. Zhat (rest ! m) \<noteq> None"
    proof (intro allI impI)
      fix m assume "m \<le> j'"
      then have "Suc m \<le> j" using Suc by simp
      then have "Zhat ((row # rest) ! Suc m) \<noteq> None" using Cons.prems(2) by blast
      then show "Zhat (rest ! m) \<noteq> None" by simp
    qed
    then have "fst (tsi_loop r rest) ! j' = (rest ! j')\<lparr>TSI := Some (the (Zhat (rest ! j')) / r)\<rparr>"
      using Cons.IH [of j'] Cons.prems(1,3) Suc by simp
    then show ?thesis using z Cons.prems(3) Suc by simp
  qed
qed

lemma tsi_loop_reports:
  assumes "\<exists>p\<in>set ps. Zhat p = None"
  shows "PrintArc ''An error occurred:'' \<in> set (snd (tsi_loop r ps))"
  using assms by (induction ps) (auto split: option.splits)

lemma three_rows: "length xs = 3 \<Longrightarrow> xs = [xs ! 0, xs ! 1, xs ! 2]"
  by (auto simp add: length_Suc_conv numeral_3_eq_3)

text \<open>The z-hat stage on \<open>elev_plots\<close> and \<open>outer_cards\<close>.\<close>

lemma outer_zhat: "calculate_zhat elev_plots outer_cards =
     Inr (elev_plots\<lparr>rows := [(plot_at 0 100 200)\<lparr>RasElev := Some 50, Zhat := Some 1\<rparr>,
                               (plot_at 1 300 400)\<lparr>RasElev := Some 20\<rparr>,
                               (plot_at 2 500 600)\<lparr>RasElev := Some 10, Zhat := Some 3\<rparr>]\<rparr>,
          [PrintArc ''Z-Hat values for plots.shp calculated''])"
  by (simp add: calculate_zhat_def elev_plots_def outer_cards_def plot_at_def card_at_def
      zhat_of_def py_index_def mean_def set_zhat_def)

text \<open>
  C4, as the code has it. Take a plot that owns no cardinal row at all and has no z-hat
  yet. When \<open>calculate_zhat\<close> completes it has left that plot as it was, so its z-hat
  is undefined. \<open>calculate_tsi\<close> then leaves that plot and every plot after it in the
  point file as they are, so the TSI of that plot stays undefined; it reports the
  condition (the message of the handler is printed) instead of raising, and it
  completes (its closing message is the last thing printed). A plot before that plot
  gets its TSI when every plot up to it has a z-hat and the radius is not zero.
\<close>

theorem plot_without_cardinals:
  assumes "calculate_zhat pf cf = Inr (pf', ev)"
    and "rows pf = pre @ p # post"
    and "FID p \<notin> Id_fld ` set (rows cf)"
    and "Zhat p = None"
  shows "length (rows pf') = length (rows pf)
       \<and> rows pf' ! length pre = p
       \<and> length (rows (fst (calculate_tsi pf' r))) = length (rows pf)
       \<and> (\<forall>j. length pre \<le> j \<and> j < length (rows pf) \<longrightarrow>
             rows (fst (calculate_tsi pf' r)) ! j = rows pf' ! j)
       \<and> (\<forall>j < length pre. (\<forall>m\<le>j. Zhat (rows pf' ! m) \<noteq> None) \<and> r \<noteq> 0 \<longrightarrow>
             TSI (rows (fst (calculate_tsi pf' r)) ! j) = Some (the (Zhat (rows pf' ! j)) / r))
       \<and> PrintArc ''An error occurred:'' \<in> set (snd (calculate_tsi pf' r))
       \<and> last (snd (calculate_tsi pf' r)) =
           PrintArc (''TSI values for '' @ path pf @ '' calculated'')"
proof -
  let ?f = "zhat_row (map RasElev (rows pf)) (rows cf) (remdups (map Id_fld (rows cf)))"
  have pf': "pf' = pf\<lparr>rows := map ?f (rows pf)\<rparr>"
    using calculate_zhat_rows(1) [OF assms(1)] .
  have len: "length (rows pf') = length (rows pf)" by (simp add: pf')
  have fp: "?f p = p" using assms(3) by (simp add: zhat_row_def)
  have at: "rows pf' ! length pre = p"
    using fp by (simp add: pf' assms(2) nth_append)
  have k: "length pre < length (rows pf')" using len assms(2) by simp
  have keep: "rows (fst (calculate_tsi pf' r)) ! j = rows pf' ! j"
    if "length pre \<le> j" "j < length (rows pf)" for j
  proof -
    have "\<exists>m\<le>j. Zhat (rows pf' ! m) = None"
      using that(1) at assms(4) by auto
    then show ?thesis
      using tsi_loop_keeps [of j "rows pf'" r] that(2) len by (simp add: calculate_tsi_def)
  qed
  have sets: "TSI (rows (fst (calculate_tsi pf' r)) ! j) = Some (the (Zhat (rows pf' ! j)) / r)"
    if "j < length pre" "\<forall>m\<le>j. Zhat (rows pf' ! m) \<noteq> None" "r \<noteq> 0" for j
  proof -
    have "j < length (rows pf')" using that(1) k by simp
    then show ?thesis
      using tsi_loop_sets [of j "rows pf'" r] that(2,3) by (simp add: calculate_tsi_def)
  qed
  have "p \<in> set (rows pf')" using at k nth_mem by metis
  then have rep: "PrintArc ''An error occurred:'' \<in> set (snd (calculate_tsi pf' r))"
    using tsi_loop_reports [of "rows pf'" r] assms(4) by (auto simp add: calculate_tsi_def)
  have lst: "last (snd (calculate_tsi pf' r)) =
           PrintArc (''TSI values for '' @ path pf @ '' calculated'')"
    by (simp add: calculate_tsi_def pf')
  have l3: "length (rows (fst (calculate_tsi pf' r))) = length (rows pf)"
    using len by (simp add: calculate_tsi_def tsi_loop_length)
  show ?thesis using len at l3 keep sets rep lst by blast
qed

text \<open>
  An instance: of three plots the second owns no cardinal row. Its z-hat and TSI stay
  undefined, the first plot gets the TSI 1 / 2, and the third plot is left as the z-hat
  stage made it.
\<close>

theorem plot_without_cardinals_witness:
  "rows elev_plots = [(plot_at 0 100 200)\<lparr>RasElev := Some 50\<rparr>]
       @ (plot_at 1 300 400)\<lparr>RasElev := Some 20\<rparr> # [(plot_at 2 500 600)\<lparr>RasElev := Some 10\<rparr>]
   \<and> FID ((plot_at 1 300 400)\<lparr>RasElev := Some 20\<rparr>) \<notin> Id_fld ` set (rows outer_cards)
   \<and> rows (fst (calculate_tsi
         (elev_plots\<lparr>rows := [(plot_at 0 100 200)\<lparr>RasElev := Some 50, Zhat := Some 1\<rparr>,
                                (plot_at 1 300 400)\<lparr>RasElev := Some 20\<rparr>,
                                (plot_at 2 500 600)\<lparr>RasElev := Some 10, Zhat := Some 3\<rparr>]\<rparr>) 2)) =
       [(plot_at 0 100 200)\<lparr>RasElev := Some 50, Zhat := Some 1, TSI := Some (1 / 2)\<rparr>,
        (plot_at 1 300 400)\<lparr>RasElev := Some 20\<rparr>,
        (plot_at 2 500 600)\<lparr>RasElev := Some 10, Zhat := Some 3\<rparr>]
   \<and> PrintArc ''An error occurred:'' \<in> set (snd (calculate_tsi
         (elev_plots\<lparr>rows := [(plot_at 0 100 200)\<lparr>RasElev := Some 50, Zhat := Some 1\<rparr>,
                                (plot_at 1 300 400)\<lparr>RasElev := Some 20\<rparr>,
                                (plot_at 2 500 600)\<lparr>RasElev := Some 10, Zhat := Some 3\<rparr>]\<rparr>) 2))"
proof -
  let ?p0 = "(plot_at 0 100 200)\<lparr>RasElev := Some 50\<rparr>"
  let ?p1 = "(plot_at 1 300 400)\<lparr>RasElev := Some 20\<rparr>"
  let ?p2 = "(plot_at 2 500 600)\<lparr>RasElev := Some 10\<rparr>"
  let ?P = "elev_plots\<lparr>rows := [?p0\<lparr>Zhat := Some 1\<rparr>, ?p1, ?p2\<lparr>Zhat := Some 3\<rparr>]\<rparr>"
  have h1: "rows elev_plots = [?p0] @ ?p1 # [?p2]" by (simp add: elev_plots_def)
  have h2: "FID ?p1 \<notin> Id_fld ` set (rows outer_cards)"
    by (simp add: outer_cards_def card_at_def plot_at_def)
  have h3: "Zhat ?p1 = None" by (simp add: plot_at_def)
  note t = plot_without_cardinals [OF outer_zhat h1 h2 h3, of 2]
  have l: "length (rows (fst (calculate_tsi ?P 2))) = 3"
    using t by (simp add: elev_plots_def)
  have r1: "rows (fst (calculate_tsi ?P 2)) ! 1 = ?p1"
    using t by (simp add: elev_plots_def)
  have r2: "rows (fst (calculate_tsi ?P 2)) ! 2 = ?p2\<lparr>Zhat := Some 3\<rparr>"
    using t by (simp add: elev_plots_def)
  have r0: "rows (fst (calculate_tsi ?P 2)) ! 0 = ?p0\<lparr>Zhat := Some 1, TSI := Some (1 / 2)\<rparr>"
    by (simp add: calculate_tsi_def)
  have rep: "PrintArc ''An error occurred:'' \<in> set (snd (calculate_tsi ?P 2))"
    using t by blast
  have "rows (fst (calculate_tsi ?P 2)) =
          [rows (fst (calculate_tsi ?P 2)) ! 0, rows (fst (calculate_tsi ?P 2)) ! 1,
           rows (fst (calculate_tsi ?P 2)) ! 2]"
    using l by (rule three_rows)
  then have "rows (fst (calculate_tsi ?P 2)) =
          [?p0\<lparr>Zhat := Some 1, TSI := Some (1 / 2)\<rparr>, ?p1, ?p2\<lparr>Zhat := Some 3\<rparr>]"
    using r0 r1 r2 by simp
  then show ?thesis using h1 h2 rep by simp
qed

lemma create_cardinals_reference:
  "spatialReference (fst (create_cardinals P R outp)) = spatialReference P"
  by (simp add: create_cardinals_def)

text \<open>The cardinal rows that \<open>create_cardinals\<close> makes for \<open>two_plots\<close>.\<close>

lemma two_plots_cardinals: "rows (fst (create_cardinals two_plots 15 ''cards.shp'')) =
  [\<lparr>FID = 0, SHAPE_XY = (100, 215), Id_fld = 0, RasElev = None, Zhat = None, TSI = None\<rparr>,
   \<lparr>FID = 1, SHAPE_XY = (100, 185), Id_fld = 0, RasElev = None, Zhat = None, TSI = None\<rparr>,
   \<lparr>FID = 2, SHAPE_XY = (115, 200), Id_fld = 0, RasElev = None, Zhat = None, TSI = None\<rparr>,
   \<lparr>FID = 3, SHAPE_XY = (85, 200), Id_fld = 0, RasElev = None, Zhat = None, TSI = None\<rparr>,
   \<lparr>FID = 4, SHAPE_XY = (100 + subOffset 15, 200 + subOffset 15), Id_fld = 0, RasElev = None, Zhat = None, TSI = None\<rparr>,
   \<lparr>FID = 5, SHAPE_XY = (100 + subOffset 15, 200 - subOffset 15), Id_fld = 0, RasElev = None, Zhat = None, TSI = None\<rparr>,
   \<lparr>FID = 6, SHAPE_XY = (100 - subOffset 15, 200 + subOffset 15), Id_fld = 0, RasElev = None, Zhat = None, TSI = None\<rparr>,
   \<lparr>FID = 7, SHAPE_XY = (100 - subOffset 15, 200 - subOffset 15), Id_fld = 0, RasElev = None, Zhat = None, TSI = None\<rparr>,
   \<lparr>FID = 8, SHAPE_XY = (300, 415), Id_fld = 1, RasElev = None, Zhat = None, TSI = None\<rparr>,
   \<lparr>FID = 9, SHAPE_XY = (300, 385), Id_fld = 1, RasElev = None, Zhat = None, TSI = None\<rparr>,
   \<lparr>FID = 10, SHAPE_XY = (315, 400), Id_fld = 1, RasElev = None, Zhat = None, TSI = None\<rparr>,
   \<lparr>FID = 11, SHAPE_XY = (285, 400), Id_fld = 1, RasElev = None, Zhat = None, TSI = None\<rparr>,
   \<lparr>FID = 12, SHAPE_XY = (300 + subOffset 15, 400 + subOffset 15), Id_fld = 1, RasElev = None, Zhat = None, TSI = None\<rparr>,
   \<lparr>FID = 13, SHAPE_XY = (300 + subOffset 15, 400 - subOffset 15), Id_fld = 1, RasElev = None, Zhat = None, TSI = None\<rparr>,
   \<lparr>FID = 14, SHAPE_XY = (300 - subOffset 15, 400 + subOffset 15), Id_fld = 1, RasElev = None, Zhat = None, TSI = None\<rparr>,
   \<lparr>FID = 15, SHAPE_XY = (300 - subOffset 15, 400 - subOffset 15), Id_fld = 1, RasElev = None, Zhat = None, TSI = None\<rparr>]"
  by (simp add: two_plots_def utm17_def plot_at_def create_cardinals_def cardinal_rows_def insertRow_def Let_def)

text \<open>
  The run on \<open>two_plots\<close> and \<open>centres_raster\<close>: both plots get the elevation 50, the
  first cardinal row has no value on the surface, so no cardinal row gets an elevation,
  and the first subtraction of the z-hat stage raises \<open>TypeError\<close>.
\<close>

lemma centres_plots: "fst (raster_extract relabel two_plots centres_raster None) =
   two_plots\<lparr>rows := [(plot_at 0 100 200)\<lparr>RasElev := Some 50\<rparr>, (plot_at 1 300 400)\<lparr>RasElev := Some 50\<rparr>]\<rparr>"
  by (simp add: raster_extract_def extract_elevation_def two_plots_def centres_raster_def plot_at_def)

lemma centres_cards: "rows (fst (raster_extract relabel (fst (create_cardinals two_plots 15 ''cards.shp'')) centres_raster outfile)) =
   rows (fst (create_cardinals two_plots 15 ''cards.shp''))"
proof -
  have n: "sr_name (spatialReference (fst (create_cardinals two_plots 15 ''cards.shp''))) =
        sr_name (rasterReference centres_raster)"
    by (simp add: create_cardinals_reference two_plots_def centres_raster_def)
  have "fst (extract_loop centres_raster (rows (fst (create_cardinals two_plots 15 ''cards.shp'')))) =
        rows (fst (create_cardinals two_plots 15 ''cards.shp''))"
    unfolding two_plots_cardinals by (simp add: centres_raster_def)
  then show ?thesis using n by (simp add: raster_extract_def extract_elevation_def)
qed

lemma centres_zhat: "calculate_zhat
   (two_plots\<lparr>rows := [(plot_at 0 100 200)\<lparr>RasElev := Some 50\<rparr>, (plot_at 1 300 400)\<lparr>RasElev := Some 50\<rparr>]\<rparr>)
   (fst (raster_extract relabel (fst (create_cardinals two_plots 15 ''cards.shp'')) centres_raster outfile))
   = Inl TypeError"
  unfolding calculate_zhat_def Let_def centres_cards two_plots_cardinals
  by (simp add: two_plots_def plot_at_def zhat_of_def py_index_def)

text \<open>
  C4 as stated fails twice. In the run above each plot has eight cardinal rows and none
  with a valid elevation, and the run ends with a \<open>TypeError\<close> that nothing catches:
  fatal, and no z-hat and no TSI for any plot. And where a plot owns no cardinal row, no
  result is produced for the plots after it: the third plot of \<open>elev_plots\<close> has the
  z-hat 3 and, with the radius 2, no TSI.
\<close>

theorem plot_without_cardinals_cex:
  "main relabel 15 centres_raster ''cards.shp'' first_state = Inl TypeError
   \<and> calculate_zhat elev_plots outer_cards =
       Inr (elev_plots\<lparr>rows := [(plot_at 0 100 200)\<lparr>RasElev := Some 50, Zhat := Some 1\<rparr>,
                                 (plot_at 1 300 400)\<lparr>RasElev := Some 20\<rparr>,
                                 (plot_at 2 500 600)\<lparr>RasElev := Some 10, Zhat := Some 3\<rparr>]\<rparr>,
            [PrintArc ''Z-Hat values for plots.shp calculated''])
   \<and> map TSI (rows (fst (calculate_tsi
         (elev_plots\<lparr>rows := [(plot_at 0 100 200)\<lparr>RasElev := Some 50, Zhat := Some 1\<rparr>,
                                (plot_at 1 300 400)\<lparr>RasElev := Some 20\<rparr>,
                                (plot_at 2 500 600)\<lparr>RasElev := Some 10, Zhat := Some 3\<rparr>]\<rparr>) 2))) =
       [Some (1 / 2), None, None]"
proof -
  have "main relabel 15 centres_raster ''cards.shp'' first_state = Inl TypeError"
    unfolding main_def Let_def first_state_def
    by (simp add: centres_plots centres_zhat)
  then show ?thesis
    by (simp add: outer_zhat) (simp add: calculate_tsi_def elev_plots_def plot_at_def)
qed

section \<open>What the stages leave unchanged\<close>

lemma map_through:
  assumes "map u qs = map u ps" and "\<And>p. g (u p) = g p"
  shows "map g qs = map g ps"
proof -
  have "map g (map u qs) = map g (map u ps)" using assms(1) by simp
  then show ?thesis by (simp add: comp_def assms(2))
qed

lemma raster_extract_frame:
  "path (fst (raster_extract project pf r outfile)) = path pf
   \<and> spatialReference (fst (raster_extract project pf r outfile)) = spatialReference pf
   \<and> map (\<lambda>p. p\<lparr>RasElev := None\<rparr>) (rows (fst (raster_extract project pf r outfile))) =
       map (\<lambda>p. p\<lparr>RasElev := None\<rparr>) (rows pf)"
  using extract_elevation_frame by (simp add: raster_extract_def Let_def)

lemma calculate_tsi_frame:
  "path (fst (calculate_tsi pf radius)) = path pf
   \<and> spatialReference (fst (calculate_tsi pf radius)) = spatialReference pf
   \<and> map (\<lambda>p. p\<lparr>TSI := None\<rparr>) (rows (fst (calculate_tsi pf radius))) =
       map (\<lambda>p. p\<lparr>TSI := None\<rparr>) (rows pf)"
  by (simp add: calculate_tsi_def tsi_loop_frame)

lemma calculate_zhat_frame:
  assumes "calculate_zhat pf cf = Inr (pf', ev)"
  shows "path pf' = path pf \<and> spatialReference pf' = spatialReference pf
     \<and> map (\<lambda>p. p\<lparr>Zhat := None\<rparr>) (rows pf') = map (\<lambda>p. p\<lparr>Zhat := None\<rparr>) (rows pf)"
  using calculate_zhat_rows(1) [OF assms] by (simp add: zhat_row_frame comp_def)

text \<open>A run that completes, stage by stage.\<close>

lemma main_Inr:
  assumes "main project R r outp ws = Inr (ws', ev)"
  shows "\<exists>P2 e4.
     calculate_zhat (fst (raster_extract project (inputPlots ws) r (outraster ws)))
       (fst (raster_extract project (fst (create_cardinals (inputPlots ws) R outp)) r
              (fst (snd (raster_extract project (inputPlots ws) r (outraster ws)))))) =
       Inr (P2, e4)
     \<and> ws' = \<lparr>inputPlots = fst (calculate_tsi P2 R),
               outputCardinals =
                 Some (fst (raster_extract project (fst (create_cardinals (inputPlots ws) R outp)) r
                        (fst (snd (raster_extract project (inputPlots ws) r (outraster ws)))))),
               outraster =
                 fst (snd (raster_extract project (fst (create_cardinals (inputPlots ws) R outp)) r
                        (fst (snd (raster_extract project (inputPlots ws) r (outraster ws))))))\<rparr>
     \<and> ev = snd (create_cardinals (inputPlots ws) R outp)
            @ snd (snd (raster_extract project (inputPlots ws) r (outraster ws)))
            @ snd (snd (raster_extract project (fst (create_cardinals (inputPlots ws) R outp)) r
                        (fst (snd (raster_extract project (inputPlots ws) r (outraster ws))))))
            @ e4 @ snd (calculate_tsi P2 R)"
  using assms by (auto simp add: main_def Let_def split: sum.splits)

lemma main_plots:
  assumes "main project R r outp ws = Inr (ws', ev)"
  shows "path (inputPlots ws') = path (inputPlots ws)"
    and "spatialReference (inputPlots ws') = spatialReference (inputPlots ws)"
    and "map FID (rows (inputPlots ws')) = map FID (rows (inputPlots ws))"
    and "map SHAPE_XY (rows (inputPlots ws')) = map SHAPE_XY (rows (inputPlots ws))"
    and "map Id_fld (rows (inputPlots ws')) = map Id_fld (rows (inputPlots ws))"
    and "map RasElev (rows (inputPlots ws')) =
         map RasElev (rows (fst (raster_extract project (inputPlots ws) r (outraster ws))))"
proof -
  let ?X = "fst (raster_extract project (inputPlots ws) r (outraster ws))"
  from main_Inr [OF assms] obtain P2 e4 C where
    z: "calculate_zhat ?X C = Inr (P2, e4)" and p: "inputPlots ws' = fst (calculate_tsi P2 R)"
    by auto
  note x = raster_extract_frame [of project "inputPlots ws" r "outraster ws"]
  note y = calculate_zhat_frame [OF z]
  note t = calculate_tsi_frame [of P2 R]
  have x3: "map (\<lambda>p. p\<lparr>RasElev := None\<rparr>) (rows ?X) =
            map (\<lambda>p. p\<lparr>RasElev := None\<rparr>) (rows (inputPlots ws))" using x by simp
  have y3: "map (\<lambda>p. p\<lparr>Zhat := None\<rparr>) (rows P2) = map (\<lambda>p. p\<lparr>Zhat := None\<rparr>) (rows ?X)"
    using y by simp
  have t3: "map (\<lambda>p. p\<lparr>TSI := None\<rparr>) (rows (inputPlots ws')) =
            map (\<lambda>p. p\<lparr>TSI := None\<rparr>) (rows P2)" using t p by simp
  show "path (inputPlots ws') = path (inputPlots ws)" using x y t p by simp
  show "spatialReference (inputPlots ws') = spatialReference (inputPlots ws)"
    using x y t p by simp
  show "map FID (rows (inputPlots ws')) = map FID (rows (inputPlots ws))"
    using map_through [OF t3, of FID] map_through [OF y3, of FID] map_through [OF x3, of FID]
    by simp
  show "map SHAPE_XY (rows (inputPlots ws')) = map SHAPE_XY (rows (inputPlots ws))"
    using map_through [OF t3, of SHAPE_XY] map_through [OF y3, of SHAPE_XY]
      map_through [OF x3, of SHAPE_XY]
    by simp
  show "map Id_fld (rows (inputPlots ws')) = map Id_fld (rows (inputPlots ws))"
    using map_through [OF t3, of Id_fld] map_through [OF y3, of Id_fld]
      map_through [OF x3, of Id_fld]
    by simp
  show "map RasElev (rows (inputPlots ws')) = map RasElev (rows ?X)"
    using map_through [OF t3, of RasElev] map_through [OF y3, of RasElev] by simp
qed

text \<open>
  C10. No stage changes the coordinates or the identifiers of a point. Elevation
  extraction (\<open>extract_elevation\<close>, and \<open>raster_extract\<close> that calls it) leaves the
  path and the spatial reference of the point file and, but for \<open>RasElev\<close>, every
  field of every row as they are; \<open>calculate_zhat\<close> does so but for \<open>Zhat\<close> of the
  plot rows, and the cardinal file is an argument that it reads and does not return;
  \<open>calculate_tsi\<close> does so but for \<open>TSI\<close>. Two lists of rows that are equal once one
  field is reset in both differ in that field at most. For a whole run: the plots keep
  their identifiers, coordinates and \<open>Id\<close> attributes, and the cardinal file it
  leaves is the one that the elevation extraction made, untouched by the two later
  stages.
\<close>

theorem stages_frame:
  "(path (fst (extract_elevation pf r)) = path pf
     \<and> spatialReference (fst (extract_elevation pf r)) = spatialReference pf
     \<and> map (\<lambda>p. p\<lparr>RasElev := None\<rparr>) (rows (fst (extract_elevation pf r))) =
         map (\<lambda>p. p\<lparr>RasElev := None\<rparr>) (rows pf))
   \<and> (path (fst (raster_extract project pf r outfile)) = path pf
     \<and> spatialReference (fst (raster_extract project pf r outfile)) = spatialReference pf
     \<and> map (\<lambda>p. p\<lparr>RasElev := None\<rparr>) (rows (fst (raster_extract project pf r outfile))) =
         map (\<lambda>p. p\<lparr>RasElev := None\<rparr>) (rows pf))
   \<and> (calculate_zhat pf cf = Inr (pf', ev) \<longrightarrow>
       path pf' = path pf
     \<and> spatialReference pf' = spatialReference pf
     \<and> map (\<lambda>p. p\<lparr>Zhat := None\<rparr>) (rows pf') = map (\<lambda>p. p\<lparr>Zhat := None\<rparr>) (rows pf))
   \<and> (path (fst (calculate_tsi pf radius)) = path pf
     \<and> spatialReference (fst (calculate_tsi pf radius)) = spatialReference pf
     \<and> map (\<lambda>p. p\<lparr>TSI := None\<rparr>) (rows (fst (calculate_tsi pf radius))) =
         map (\<lambda>p. p\<lparr>TSI := None\<rparr>) (rows pf))
   \<and> (main project radius r outp ws = Inr (ws', ev') \<longrightarrow>
       map FID (rows (inputPlots ws')) = map FID (rows (inputPlots ws))
     \<and> map SHAPE_XY (rows (inputPlots ws')) = map SHAPE_XY (rows (inputPlots ws))
     \<and> map Id_fld (rows (inputPlots ws')) = map Id_fld (rows (inputPlots ws))
     \<and> outputCardinals ws' =
         Some (fst (raster_extract project (fst (create_cardinals (inputPlots ws) radius outp)) r
                (fst (snd (raster_extract project (inputPlots ws) r (outraster ws)))))))"
proof -
  note e = extract_elevation_frame [of pf r]
  note x = raster_extract_frame [of project pf r outfile]
  have z: "path pf' = path pf \<and> spatialReference pf' = spatialReference pf
     \<and> map (\<lambda>p. p\<lparr>Zhat := None\<rparr>) (rows pf') = map (\<lambda>p. p\<lparr>Zhat := None\<rparr>) (rows pf)"
    if "calculate_zhat pf cf = Inr (pf', ev)"
    using that by (rule calculate_zhat_frame)
  note t = calculate_tsi_frame [of pf radius]
  have m: "map FID (rows (inputPlots ws')) = map FID (rows (inputPlots ws))
     \<and> map SHAPE_XY (rows (inputPlots ws')) = map SHAPE_XY (rows (inputPlots ws))
     \<and> map Id_fld (rows (inputPlots ws')) = map Id_fld (rows (inputPlots ws))
     \<and> outputCardinals ws' =
         Some (fst (raster_extract project (fst (create_cardinals (inputPlots ws) radius outp)) r
                (fst (snd (raster_extract project (inputPlots ws) r (outraster ws))))))"
    if h: "main project radius r outp ws = Inr (ws', ev')"
    using main_plots(3,4,5) [OF h] main_Inr [OF h] by auto
  show ?thesis using e x z t m by blast
qed

text \<open>
  An instance: the three stages on \<open>elev_plots\<close>, of which the z-hat stage writes the
  z-hat of the first and the third plot, and the run on \<open>two_plots\<close>.
\<close>

lemma flat_cards: "fst (extract_elevation (fst (create_cardinals two_plots 15 ''cards.shp'')) flat_raster)
   = \<lparr>path = ''cards.shp'', spatialReference = utm17,
       rows = map (\<lambda>p. p\<lparr>RasElev := Some 7\<rparr>) (rows (fst (create_cardinals two_plots 15 ''cards.shp'')))\<rparr>"
  by (simp add: extract_elevation_def extract_loop_all flat_raster_def create_cardinals_def two_plots_def)

lemma flat_zhat: "calculate_zhat
   (two_plots\<lparr>rows := [(plot_at 0 100 200)\<lparr>RasElev := Some 7\<rparr>, (plot_at 1 300 400)\<lparr>RasElev := Some 7\<rparr>]\<rparr>)
   (fst (extract_elevation (fst (create_cardinals two_plots 15 ''cards.shp'')) flat_raster))
  = Inr (two_plots\<lparr>rows := [(plot_at 0 100 200)\<lparr>RasElev := Some 7, Zhat := Some 0\<rparr>,
                             (plot_at 1 300 400)\<lparr>RasElev := Some 7, Zhat := Some 0\<rparr>]\<rparr>,
         [PrintArc ''Z-Hat values for plots.shp calculated''])"
  unfolding flat_cards two_plots_cardinals
  by (simp add: calculate_zhat_def two_plots_def plot_at_def zhat_of_def py_index_def mean_def set_zhat_def)

lemma flat_plots: "raster_extract relabel two_plots flat_raster None =
   (two_plots\<lparr>rows := [(plot_at 0 100 200)\<lparr>RasElev := Some 7\<rparr>, (plot_at 1 300 400)\<lparr>RasElev := Some 7\<rparr>]\<rparr>,
    None, snd (extract_elevation two_plots flat_raster))"
  by (simp add: raster_extract_def extract_elevation_def two_plots_def flat_raster_def plot_at_def)

lemma flat_extract: "raster_extract relabel (fst (create_cardinals two_plots 15 ''cards.shp'')) flat_raster None =
   (fst (extract_elevation (fst (create_cardinals two_plots 15 ''cards.shp'')) flat_raster), None,
    snd (extract_elevation (fst (create_cardinals two_plots 15 ''cards.shp'')) flat_raster))"
  by (simp add: raster_extract_def create_cardinals_reference two_plots_def flat_raster_def)

lemma flat_tsi: "calculate_tsi (two_plots\<lparr>rows := [(plot_at 0 100 200)\<lparr>RasElev := Some 7, Zhat := Some 0\<rparr>,
                             (plot_at 1 300 400)\<lparr>RasElev := Some 7, Zhat := Some 0\<rparr>]\<rparr>) 15 =
    (two_plots\<lparr>rows := [(plot_at 0 100 200)\<lparr>RasElev := Some 7, Zhat := Some 0, TSI := Some 0\<rparr>,
                             (plot_at 1 300 400)\<lparr>RasElev := Some 7, Zhat := Some 0, TSI := Some 0\<rparr>]\<rparr>,
     [PrintArc ''TSI values for plots.shp calculated''])"
  by (simp add: calculate_tsi_def two_plots_def plot_at_def)

lemma first_run: "main relabel 15 flat_raster ''cards.shp'' first_state = Inr (second_state, run_report)"
  unfolding main_def Let_def first_state_def
  by (simp add: flat_plots flat_extract flat_zhat flat_tsi second_state_def run_report_def)

theorem stages_frame_witness:
  "calculate_zhat elev_plots outer_cards =
     Inr (elev_plots\<lparr>rows := [(plot_at 0 100 200)\<lparr>RasElev := Some 50, Zhat := Some 1\<rparr>,
                               (plot_at 1 300 400)\<lparr>RasElev := Some 20\<rparr>,
                               (plot_at 2 500 600)\<lparr>RasElev := Some 10, Zhat := Some 3\<rparr>]\<rparr>,
          [PrintArc ''Z-Hat values for plots.shp calculated''])
   \<and> map (\<lambda>p. p\<lparr>Zhat := None\<rparr>)
         [(plot_at 0 100 200)\<lparr>RasElev := Some 50, Zhat := Some 1\<rparr>,
          (plot_at 1 300 400)\<lparr>RasElev := Some 20\<rparr>,
          (plot_at 2 500 600)\<lparr>RasElev := Some 10, Zhat := Some 3\<rparr>] =
       map (\<lambda>p. p\<lparr>Zhat := None\<rparr>) (rows elev_plots)
   \<and> map (\<lambda>p. p\<lparr>RasElev := None\<rparr>) (rows (fst (extract_elevation elev_plots gap_raster))) =
       map (\<lambda>p. p\<lparr>RasElev := None\<rparr>) (rows elev_plots)
   \<and> map (\<lambda>p. p\<lparr>TSI := None\<rparr>) (rows (fst (calculate_tsi elev_plots 2))) =
       map (\<lambda>p. p\<lparr>TSI := None\<rparr>) (rows elev_plots)
   \<and> main relabel 15 flat_raster ''cards.shp'' first_state = Inr (second_state, run_report)
   \<and> map SHAPE_XY (rows (inputPlots second_state)) = map SHAPE_XY (rows (inputPlots first_state))
   \<and> map FID (rows (inputPlots second_state)) = map FID (rows (inputPlots first_state))"
proof -
  note a = stages_frame [of elev_plots gap_raster relabel None outer_cards
      "elev_plots\<lparr>rows := [(plot_at 0 100 200)\<lparr>RasElev := Some 50, Zhat := Some 1\<rparr>,
                               (plot_at 1 300 400)\<lparr>RasElev := Some 20\<rparr>,
                               (plot_at 2 500 600)\<lparr>RasElev := Some 10, Zhat := Some 3\<rparr>]\<rparr>"
      "[PrintArc ''Z-Hat values for plots.shp calculated'']" 2]
  note b = stages_frame [of two_plots flat_raster relabel None outer_cards _ _ 15
      "''cards.shp''" first_state second_state run_report]
  have z: "map (\<lambda>p. p\<lparr>Zhat := None\<rparr>)
         [(plot_at 0 100 200)\<lparr>RasElev := Some 50, Zhat := Some 1\<rparr>,
          (plot_at 1 300 400)\<lparr>RasElev := Some 20\<rparr>,
          (plot_at 2 500 600)\<lparr>RasElev := Some 10, Zhat := Some 3\<rparr>] =
       map (\<lambda>p. p\<lparr>Zhat := None\<rparr>) (rows elev_plots)"
    using a outer_zhat by simp
  have e: "map (\<lambda>p. p\<lparr>RasElev := None\<rparr>) (rows (fst (extract_elevation elev_plots gap_raster))) =
       map (\<lambda>p. p\<lparr>RasElev := None\<rparr>) (rows elev_plots)"
    using a by blast
  have s: "map (\<lambda>p. p\<lparr>TSI := None\<rparr>) (rows (fst (calculate_tsi elev_plots 2))) =
       map (\<lambda>p. p\<lparr>TSI := None\<rparr>) (rows elev_plots)"
    using a by blast
  have m: "map SHAPE_XY (rows (inputPlots second_state)) = map SHAPE_XY (rows (inputPlots first_state))"
    "map FID (rows (inputPlots second_state)) = map FID (rows (inputPlots first_state))"
    using b first_run by blast+
  show ?thesis using outer_zhat z e s first_run m by simp
qed

section \<open>Running twice\<close>

lemma create_loop_map:
  "foldl (\<lambda>out row. foldl insertRow out (cardinal_rows R row)) acc ps =
   foldl (\<lambda>out crs. foldl insertRow out crs) acc (map (cardinal_rows R) ps)"
  by (induction ps arbitrary: acc) simp_all

lemma cardinal_rows_cong:
  assumes "map FID qs = map FID ps" and "map SHAPE_XY qs = map SHAPE_XY ps"
  shows "map (cardinal_rows R) qs = map (cardinal_rows R) ps"
  using assms
proof (induction qs arbitrary: ps)
  case Nil
  then show ?case by simp
next
  case (Cons q qs)
  then obtain p ps' where ps: "ps = p # ps'" by (cases ps) auto
  with Cons.prems have "FID q = FID p" "SHAPE_XY q = SHAPE_XY p"
    "map FID qs = map FID ps'" "map SHAPE_XY qs = map SHAPE_XY ps'" by auto
  then show ?case using Cons.IH [of ps'] ps by (simp add: cardinal_rows_def)
qed

lemma create_cardinals_cong:
  assumes "spatialReference Q = spatialReference P"
    and "map FID (rows Q) = map FID (rows P)"
    and "map SHAPE_XY (rows Q) = map SHAPE_XY (rows P)"
  shows "create_cardinals Q R outp = create_cardinals P R outp"
  using assms cardinal_rows_cong [OF assms(2,3), of R]
  by (simp add: create_cardinals_def create_loop_map)

lemma extract_loop_fix:
  assumes "map SHAPE_XY qs = map SHAPE_XY ps"
    and "map RasElev qs = map RasElev (fst (extract_loop s ps))"
  shows "extract_loop s qs = (qs, snd (extract_loop s ps))"
  using assms
proof (induction ps arbitrary: qs)
  case Nil
  then show ?case by simp
next
  case (Cons p ps)
  then obtain q qs' where qs: "qs = q # qs'" by (cases qs) auto
  have xy: "SHAPE_XY q = SHAPE_XY p" "map SHAPE_XY qs' = map SHAPE_XY ps"
    using Cons.prems(1) qs by auto
  show ?case
  proof (cases "value_at s p")
    case None
    then show ?thesis using xy qs by simp
  next
    case (Some v)
    have e: "RasElev q = Some v" "map RasElev qs' = map RasElev (fst (extract_loop s ps))"
      using Cons.prems(2) qs Some by auto
    have "q\<lparr>RasElev := Some v\<rparr> = q" using e(1) by simp
    then show ?thesis using Cons.IH [OF xy(2) e(2)] xy qs Some by simp
  qed
qed

lemma extract_elevation_fix:
  assumes "path Q = path P"
    and "map SHAPE_XY (rows Q) = map SHAPE_XY (rows P)"
    and "map RasElev (rows Q) = map RasElev (rows (fst (extract_elevation P s)))"
  shows "extract_elevation Q s = (Q, snd (extract_elevation P s))"
proof -
  have "map RasElev (rows Q) = map RasElev (fst (extract_loop s (rows P)))"
    using assms(3) by (simp add: extract_elevation_def)
  then have "extract_loop s (rows Q) = (rows Q, snd (extract_loop s (rows P)))"
    using extract_loop_fix [OF assms(2)] by simp
  then show ?thesis using assms(1) by (simp add: extract_elevation_def)
qed

lemma raster_extract_slot:
  "fst (snd (raster_extract project P r outfile)) =
     (if sr_name (spatialReference P) = sr_name (rasterReference r) then outfile else None)"
  by (simp add: raster_extract_def Let_def)

lemma raster_extract_fix:
  assumes "path Q = path P"
    and "spatialReference Q = spatialReference P"
    and "map SHAPE_XY (rows Q) = map SHAPE_XY (rows P)"
    and "map RasElev (rows Q) = map RasElev (rows (fst (raster_extract project P r outfile)))"
  shows "raster_extract project Q r outfile' =
           (Q, (if sr_name (spatialReference P) = sr_name (rasterReference r)
                then outfile' else None),
            snd (snd (raster_extract project P r outfile)))"
proof (cases "sr_name (spatialReference P) = sr_name (rasterReference r)")
  case True
  have "map RasElev (rows Q) = map RasElev (rows (fst (extract_elevation P r)))"
    using assms(4) True by (simp add: raster_extract_def)
  then show ?thesis
    using extract_elevation_fix [OF assms(1) assms(3), of r] True assms(2)
    by (simp add: raster_extract_def)
next
  case False
  let ?s = "(project r (spatialReference P))\<lparr>rpath := ''outraster.tif''\<rparr>"
  have "map RasElev (rows Q) = map RasElev (rows (fst (extract_elevation P ?s)))"
    using assms(4) False by (simp add: raster_extract_def Let_def)
  then show ?thesis
    using extract_elevation_fix [OF assms(1) assms(3), of ?s] False assms(2)
    by (simp add: raster_extract_def Let_def)
qed

lemma zhat_rows_fix:
  assumes "map (\<lambda>p. p\<lparr>TSI := None\<rparr>) qs = map (\<lambda>p. p\<lparr>TSI := None\<rparr>) (map (zhat_row pe cards ids) ps)"
  shows "map (zhat_row pe cards ids) qs = qs"
  using assms
proof (induction qs arbitrary: ps)
  case Nil
  then show ?case by simp
next
  case (Cons q qs)
  then obtain p ps' where ps: "ps = p # ps'" by (cases ps) auto
  have h: "q\<lparr>TSI := None\<rparr> = (zhat_row pe cards ids p)\<lparr>TSI := None\<rparr>"
    and t: "map (\<lambda>p. p\<lparr>TSI := None\<rparr>) qs = map (\<lambda>p. p\<lparr>TSI := None\<rparr>) (map (zhat_row pe cards ids) ps')"
    using Cons.prems ps by auto
  have "FID (q\<lparr>TSI := None\<rparr>) = FID ((zhat_row pe cards ids p)\<lparr>TSI := None\<rparr>)"
    and "Zhat (q\<lparr>TSI := None\<rparr>) = Zhat ((zhat_row pe cards ids p)\<lparr>TSI := None\<rparr>)"
    using h by simp_all
  then have f: "FID q = FID p" and z: "Zhat q = Zhat (zhat_row pe cards ids p)"
    by (simp_all add: FID_zhat_row)
  have "zhat_row pe cards ids q = q"
    using f z by (auto simp add: zhat_row_def split: sum.splits)
  then show ?case using Cons.IH [OF t] by simp
qed

lemma tsi_loop_idem: "tsi_loop R (fst (tsi_loop R ps)) = tsi_loop R ps"
  by (induction ps) (auto split: option.splits simp add: prod_eq_iff)

lemma calculate_zhat_fix:
  assumes z: "calculate_zhat P C = Inr (P2, e)"
    and p: "path Q = path P"
    and el: "map RasElev (rows Q) = map RasElev (rows P)"
    and t: "map (\<lambda>p. p\<lparr>TSI := None\<rparr>) (rows Q) = map (\<lambda>p. p\<lparr>TSI := None\<rparr>) (rows P2)"
  shows "calculate_zhat Q C = Inr (Q, e)"
proof -
  let ?ids = "remdups (map Id_fld (rows C))"
  let ?f = "zhat_row (map RasElev (rows P)) (rows C) ?ids"
  have P2: "rows P2 = map ?f (rows P)"
    using calculate_zhat_rows(1) [OF z] by simp
  have e: "e = [PrintArc (''Z-Hat values for '' @ path P @ '' calculated'')]"
    using calculate_zhat_rows(2) [OF z] .
  have "zhat_loop (map RasElev (rows P)) (rows C) ?ids (rows Q) = Inr (map ?f (rows Q))"
    using calculate_zhat_ok_ids [OF z] by (rule zhat_loop_ok)
  moreover have "map ?f (rows Q) = rows Q"
    using t unfolding P2 by (rule zhat_rows_fix)
  ultimately show ?thesis
    by (simp add: calculate_zhat_def Let_def el p e)
qed

lemma calculate_tsi_idem:
  "calculate_tsi (fst (calculate_tsi P R)) R = (fst (calculate_tsi P R), snd (calculate_tsi P R))"
  by (simp add: calculate_tsi_def tsi_loop_idem)

text \<open>
  C8. A run that completes leaves files on which a second run with the same arguments
  completes as well, prints and calls the same, and leaves every file as the first run
  left it: the cardinal file is created anew, and the elevation, z-hat and TSI of a row
  are written over with the values they have, or not written. In particular the TSI
  values after the second run are those after the first.
\<close>

theorem main_twice:
  assumes "main project R r outp ws = Inr (ws', ev)"
  shows "main project R r outp ws' = Inr (ws', ev)"
proof -
  define P0 where "P0 = inputPlots ws"
  define X1 where "X1 = raster_extract project P0 r (outraster ws)"
  define C0 where "C0 = create_cardinals P0 R outp"
  define Y1 where "Y1 = raster_extract project (fst C0) r (fst (snd X1))"
  from main_Inr [OF assms] obtain P2 e4 where
    z: "calculate_zhat (fst X1) (fst Y1) = Inr (P2, e4)"
    and ws': "ws' = \<lparr>inputPlots = fst (calculate_tsi P2 R), outputCardinals = Some (fst Y1),
                     outraster = fst (snd Y1)\<rparr>"
    and ev: "ev = snd C0 @ snd (snd X1) @ snd (snd Y1) @ e4 @ snd (calculate_tsi P2 R)"
    unfolding P0_def X1_def C0_def Y1_def by blast
  define P3 where "P3 = fst (calculate_tsi P2 R)"
  have P3: "P3 = inputPlots ws'" by (simp add: ws' P3_def)
  note f = main_plots [OF assms, folded P3 P0_def X1_def]
  have el: "map RasElev (rows P3) = map RasElev (rows (fst X1))"
    using f(6) by (simp add: X1_def)
  have t3: "map (\<lambda>p. p\<lparr>TSI := None\<rparr>) (rows P3) = map (\<lambda>p. p\<lparr>TSI := None\<rparr>) (rows P2)"
    using calculate_tsi_frame [of P2 R] by (simp add: P3_def)
  have c: "create_cardinals P3 R outp = C0"
    unfolding C0_def using f(2,3,4) by (rule create_cardinals_cong)
  have slot: "fst (snd Y1) = fst (snd X1)"
    by (simp add: Y1_def X1_def C0_def raster_extract_slot create_cardinals_reference)
  have s1: "fst (snd X1) =
      (if sr_name (spatialReference P0) = sr_name (rasterReference r)
       then outraster ws else None)"
    by (simp add: X1_def raster_extract_slot)
  have s2: "(if sr_name (spatialReference P0) = sr_name (rasterReference r)
             then fst (snd Y1) else None) = fst (snd X1)"
    using slot s1 by simp
  have x: "raster_extract project P3 r (fst (snd Y1)) = (P3, fst (snd X1), snd (snd X1))"
  proof -
    have "map RasElev (rows P3) =
          map RasElev (rows (fst (raster_extract project P0 r (outraster ws))))"
      using f(6) by (simp add: X1_def)
    from raster_extract_fix [OF f(1) f(2) f(4) this, of "fst (snd Y1)"]
    have "raster_extract project P3 r (fst (snd Y1)) =
          (P3, (if sr_name (spatialReference P0) = sr_name (rasterReference r)
                then fst (snd Y1) else None), snd (snd X1))"
      by (simp only: X1_def)
    then show ?thesis by (simp only: s2)
  qed
  have z2: "calculate_zhat P3 (fst Y1) = Inr (P3, e4)"
    using z _ el t3
  proof (rule calculate_zhat_fix)
    show "path P3 = path (fst X1)"
      using f(1) raster_extract_frame [of project P0 r "outraster ws"] by (simp add: X1_def)
  qed
  have t2: "calculate_tsi P3 R = (P3, snd (calculate_tsi P2 R))"
    unfolding P3_def by (rule calculate_tsi_idem)
  have "main project R r outp ws' =
        Inr (\<lparr>inputPlots = P3, outputCardinals = Some (fst Y1), outraster = fst (snd Y1)\<rparr>,
             snd C0 @ snd (snd X1) @ snd (snd Y1) @ e4 @ snd (calculate_tsi P2 R))"
    unfolding main_def Let_def
    by (simp add: ws' P3_def [symmetric] c x Y1_def [symmetric] z2 t2)
  then show ?thesis by (simp add: ws' ev P3_def)
qed

text \<open>
  An instance: the run on \<open>two_plots\<close> and a surface everywhere 7 gives both plots the
  TSI 0, and run again on what it left it gives the same.
\<close>

theorem main_twice_witness:
  "main relabel 15 flat_raster ''cards.shp'' first_state = Inr (second_state, run_report)
   \<and> main relabel 15 flat_raster ''cards.shp'' second_state = Inr (second_state, run_report)
   \<and> map TSI (rows (inputPlots second_state)) = [Some 0, Some 0]"
  using first_run main_twice [OF first_run]
  by (simp add: second_state_def)

end
